(* ===== verification/Prelude.thy ===== *)
theory Prelude
  imports Main "HOL-Library.Word"
begin

text \<open>
  Shared vocabulary of the development: the byte type of payloads, the model of a
  JavaScript \<open>Map\<close> built from an entry list (the last entry of a key wins, keys
  keep their first insertion position), the result type of operations that throw,
  and the generic lemmas on lists and association lists that the component
  theories use.
\<close>

type_synonym byte = "8 word"
type_synonym bytes = "byte list"

text \<open>
  A JavaScript \<open>Map\<close> is an association list in insertion order. \<open>new Map(entries)\<close>
  keeps the value of the last entry of a key, so lookup reads the list from the end.
\<close>

type_synonym ('k, 'v) js_map = "('k \<times> 'v) list"

definition js_get :: "('k, 'v) js_map \<Rightarrow> 'k \<Rightarrow> 'v option" where
  "js_get m k = map_of (rev m) k"

definition js_has :: "('k, 'v) js_map \<Rightarrow> 'k \<Rightarrow> bool" where
  "js_has m k \<longleftrightarrow> k \<in> set (map fst m)"

definition js_keys :: "('k, 'v) js_map \<Rightarrow> 'k set" where
  "js_keys m = set (map fst m)"

text \<open>\<open>Map.prototype.set\<close>: an existing key keeps its position and takes the new value.\<close>

definition js_set :: "('k, 'v) js_map \<Rightarrow> 'k \<Rightarrow> 'v \<Rightarrow> ('k, 'v) js_map" where
  "js_set m k v =
     (if js_has m k then map (\<lambda>p. if fst p = k then (k, v) else p) m
      else m @ [(k, v)])"

named_theorems sviz_simps "simplification rules shared by the component theories"

lemma js_get_Some_key [sviz_simps]: "js_get m k = Some v \<Longrightarrow> k \<in> js_keys m"
  by (force simp: js_get_def js_keys_def dest!: map_of_SomeD)

lemma js_get_None_iff [sviz_simps]: "js_get m k = None \<longleftrightarrow> k \<notin> js_keys m"
  by (auto simp: js_get_def js_keys_def map_of_eq_None_iff)

lemma js_has_keys [sviz_simps]: "js_has m k \<longleftrightarrow> k \<in> js_keys m"
  by (simp add: js_has_def js_keys_def)

lemma js_keys_append [simp, sviz_simps]: "js_keys (m @ m') = js_keys m \<union> js_keys m'"
  by (auto simp: js_keys_def)

lemma js_keys_Nil [simp, sviz_simps]: "js_keys [] = {}"
  by (simp add: js_keys_def)

lemma js_keys_Cons [simp, sviz_simps]: "js_keys (p # m) = insert (fst p) (js_keys m)"
  by (simp add: js_keys_def)

lemma js_keys_finite [sviz_simps]: "finite (js_keys m)"
  by (simp add: js_keys_def)

text \<open>On a map whose keys are distinct, lookup finds the one entry of the key.\<close>

lemma js_get_distinct:
  "distinct (map fst m) \<Longrightarrow> (k, v) \<in> set m \<Longrightarrow> js_get m k = Some v"
  by (simp add: js_get_def rev_map [symmetric])

lemma js_get_append_fresh [sviz_simps]:
  "k \<notin> js_keys m' \<Longrightarrow> js_get (m @ m') k = js_get m k"
proof -
  assume "k \<notin> js_keys m'"
  then have "map_of (rev m') k = None"
    by (simp add: js_keys_def map_of_eq_None_iff)
  then show ?thesis by (simp add: js_get_def map_add_def)
qed

lemma js_get_append_new [sviz_simps]:
  "js_get (m @ [(k, v)]) k = Some v"
  by (simp add: js_get_def)

lemma js_keys_map_update:
  "set (map fst (map (\<lambda>p. if fst p = k then (k, v) else p) m)) = set (map fst m)"
  by (induction m) auto

lemma map_of_map_update:
  "map_of (map (\<lambda>p. if fst p = k then (k, v) else p) xs) x =
   (if x = k \<and> k \<in> fst ` set xs then Some v else map_of xs x)"
proof (induction xs)
  case Nil
  then show ?case by simp
next
  case (Cons p xs)
  then show ?case by (cases p) (auto simp: image_iff split: if_splits; force)
qed

lemma js_keys_set [simp, sviz_simps]: "js_keys (js_set m k v) = insert k (js_keys m)"
proof (cases "js_has m k")
  case True
  then have "js_keys (js_set m k v) = js_keys m"
    unfolding js_set_def js_keys_def by (simp only: if_True js_keys_map_update)
  with True show ?thesis by (auto simp: js_has_def js_keys_def)
next
  case False
  then show ?thesis by (simp add: js_set_def)
qed

lemma js_get_set [simp, sviz_simps]:
  "js_get (js_set m k v) k' = (if k' = k then Some v else js_get m k')"
  by (auto simp: js_set_def js_get_def js_has_def rev_map map_of_map_update)

subsection \<open>Deleting keys\<close>

text \<open>\<open>delete obj[k]\<close> and \<open>Map.prototype.delete\<close>: the key's entries are removed.\<close>

definition js_delete :: "('k, 'v) js_map \<Rightarrow> 'k \<Rightarrow> ('k, 'v) js_map" where
  "js_delete m k = filter (\<lambda>p. fst p \<noteq> k) m"

lemma js_has_get [sviz_simps]: "js_has m k \<longleftrightarrow> js_get m k \<noteq> None"
  by (simp add: js_has_keys js_get_None_iff)

lemma js_get_delete [simp, sviz_simps]:
  "js_get (js_delete m k) k' = (if k' = k then None else js_get m k')"
  by (induction m rule: rev_induct) (auto simp: js_delete_def js_get_def)

lemma js_keys_list_delete [simp, sviz_simps]: "map fst (js_delete m k) = removeAll k (map fst m)"
  by (induction m) (auto simp: js_delete_def)

lemma js_keys_list_set [sviz_simps]:
  "map fst (js_set m k v) = (if js_has m k then map fst m else map fst m @ [k])"
  by (induction m) (auto simp: js_set_def js_has_def)

lemma js_set_distinct [sviz_simps]: "distinct (map fst m) \<Longrightarrow> distinct (map fst (js_set m k v))"
  by (simp add: js_keys_list_set js_has_def)

lemma js_set_subset [sviz_simps]: "set (js_set m k v) \<subseteq> insert (k, v) (set m)"
  by (auto simp: js_set_def)

lemma js_get_in_set [sviz_simps]: "js_get m k = Some v \<Longrightarrow> (k, v) \<in> set m"
  by (auto simp: js_get_def dest: map_of_SomeD)

lemma list_all_js_set [sviz_simps]: "list_all P m \<Longrightarrow> P (k, v) \<Longrightarrow> list_all P (js_set m k v)"
  using js_set_subset [of m k v] by (auto simp: list_all_iff)

lemma list_all_js_delete [sviz_simps]: "list_all P m \<Longrightarrow> list_all P (js_delete m k)"
  by (auto simp: list_all_iff js_delete_def)

lemma js_set_keys_image [simp, sviz_simps]: "fst ` set (js_set m k v) = insert k (fst ` set m)"
  using js_keys_set [of m k v] by (simp add: js_keys_def)

lemma js_set_fresh [sviz_simps]: "\<not> js_has m k \<Longrightarrow> js_set m k v = m @ [(k, v)]"
  by (simp add: js_set_def)

subsection \<open>Distinct key lists\<close>

lemma card_minus_append:
  assumes "distinct (map fst new)" and "js_keys new \<subseteq> K - F" and "finite K"
  shows "card (K - (F \<union> js_keys new)) + length new = card (K - F)"
proof -
  have "K - F = (K - (F \<union> js_keys new)) \<union> js_keys new" using assms(2) by auto
  moreover have "(K - (F \<union> js_keys new)) \<inter> js_keys new = {}" by auto
  moreover have "card (js_keys new) = length new"
    using assms(1) distinct_card [of "map fst new"] by (simp add: js_keys_def)
  ultimately show ?thesis using assms(3)
    by (metis card_Un_disjoint finite_Diff js_keys_finite)
qed

end
