(* ===== verification/Time.thy ===== *)
theory Time
  imports Prelude
begin

text \<open>
  The ROS time value of \<open>@foxglove/rostime\<close> (a library the log source calls, not part
  of this repository): a pair of seconds and nanoseconds, both JavaScript numbers that
  hold integers here. \<open>add\<close> adds the two fields and normalises with \<open>fixTime\<close>,
  which carries whole seconds out of the nanoseconds (floor division, remainder made
  non-negative) and throws when the result is negative. The throw is \<open>None\<close>.
\<close>

record time =
  sec :: int
  nsec :: int

definition nsec_per_sec :: int where
  "nsec_per_sec = 1000000000"

definition fix_time :: "time \<Rightarrow> time option" where
  "fix_time t =
     (let secs = sec t + nsec t div nsec_per_sec;
          nanos = nsec t mod nsec_per_sec
      in if secs < 0 then None else Some \<lparr>sec = secs, nsec = nanos\<rparr>)"

definition add_time :: "time \<Rightarrow> time \<Rightarrow> time option" where
  "add_time a b = fix_time \<lparr>sec = sec a + sec b, nsec = nsec a + nsec b\<rparr>"

text \<open>\<open>toNanoSec\<close>: the time as a (big) integer count of nanoseconds.\<close>

definition to_nsec :: "time \<Rightarrow> int" where
  "to_nsec t = sec t * nsec_per_sec + nsec t"

text \<open>A time is normalised when its nanoseconds are in \<open>[0, 10^9)\<close> and it is not negative.\<close>

definition time_valid :: "time \<Rightarrow> bool" where
  "time_valid t \<longleftrightarrow> 0 \<le> sec t \<and> 0 \<le> nsec t \<and> nsec t < nsec_per_sec"

lemma fix_time_to_nsec:
  "fix_time t = Some t' \<Longrightarrow> to_nsec t' = to_nsec t"
  by (auto simp: fix_time_def to_nsec_def Let_def nsec_per_sec_def split: if_splits)

lemma fix_time_valid:
  "fix_time t = Some t' \<Longrightarrow> time_valid t'"
  by (auto simp: fix_time_def time_valid_def Let_def nsec_per_sec_def split: if_splits)

lemma fix_time_Some_iff:
  "(\<exists>t'. fix_time t = Some t') \<longleftrightarrow> 0 \<le> sec t + nsec t div nsec_per_sec"
  by (simp add: fix_time_def Let_def)

lemma add_time_to_nsec:
  "add_time a b = Some c \<Longrightarrow> to_nsec c = to_nsec a + to_nsec b"
  by (auto simp: add_time_def to_nsec_def algebra_simps dest!: fix_time_to_nsec)

lemma add_time_valid_Some:
  assumes "0 \<le> sec a" "0 \<le> nsec a" "0 \<le> sec b" "0 \<le> nsec b"
  shows "\<exists>c. add_time a b = Some c"
proof -
  have "0 \<le> (nsec a + nsec b) div nsec_per_sec"
    using assms by (simp add: nsec_per_sec_def)
  then show ?thesis
    using assms by (simp add: add_time_def fix_time_Some_iff)
qed

end
