(* ===== verification/SchemaResolver.thy ===== *)
theory SchemaResolver
  imports Prelude
begin

text \<open>
  The schema resolver: the loop of \<open>RosDb3IterableSource.initialize\<close>
  (src/packages/studio-base/src/players/IterablePlayer/rosdb3/RosDb3IterableSource.ts,
  lines 89--107) that collects, breadth first, every complex type a topic's message
  type refers to, looking each one up in the registry of well-known ROS 2 types.
  A field is complex when its \<open>isComplex\<close> flag is \<open>true\<close> (the flag is optional).
  The worklist \<open>typesToProcess\<close> is a list used as a queue; the result
  \<open>typesForMessage\<close> is a JavaScript \<open>Map\<close>, so an association list in insertion
  order. A missing subtype throws; the throw is the \<open>Inl\<close> branch.
\<close>

record field_def =
  fd_name :: string
  fd_type :: string
  fd_is_complex :: "bool option"

record msg_def =
  md_name :: "string option"
  md_definitions :: "field_def list"

type_synonym ros_datatypes = "(string, msg_def) js_map"

datatype resolve_error = SubtypeNotFound string "string option"

definition is_complex :: "field_def \<Rightarrow> bool" where
  "is_complex f \<longleftrightarrow> fd_is_complex f = Some True"

text \<open>
  The inner \<open>for\<close> loop over the fields of one type: a complex field whose type is not
  yet in \<open>typesForMessage\<close> is looked up; found, it is queued and recorded; missing,
  the loop throws naming the subtype and the type that referred to it.
\<close>

fun process_fields ::
  "ros_datatypes \<Rightarrow> msg_def \<Rightarrow> field_def list \<Rightarrow> msg_def list \<times> ros_datatypes
   \<Rightarrow> resolve_error + msg_def list \<times> ros_datatypes" where
  "process_fields dts t [] (q, found) = Inr (q, found)"
| "process_fields dts t (f # fs) (q, found) =
     (if is_complex f \<and> \<not> js_has found (fd_type f) then
        (case js_get dts (fd_type f) of
           None \<Rightarrow> Inl (SubtypeNotFound (fd_type f) (md_name t))
         | Some d \<Rightarrow> process_fields dts t fs (q @ [d], found @ [(fd_type f, d)]))
      else process_fields dts t fs (q, found))"

text \<open>What one pass of the inner loop adds: fresh registry entries, queued in order.\<close>

lemma process_fields_Inr:
  "process_fields dts t fs (q, found) = Inr (q', found') \<Longrightarrow>
   \<exists>new. q' = q @ map snd new \<and> found' = found @ new \<and> distinct (map fst new) \<and>
     js_keys new \<inter> js_keys found = {} \<and>
     (\<forall>(n, d) \<in> set new. js_get dts n = Some d \<and> (\<exists>f \<in> set fs. is_complex f \<and> fd_type f = n)) \<and>
     (\<forall>f \<in> set fs. is_complex f \<longrightarrow> fd_type f \<in> js_keys found')"
proof (induction fs arbitrary: q found)
  case Nil
  then show ?case by simp
next
  case (Cons f fs)
  show ?case
  proof (cases "is_complex f \<and> \<not> js_has found (fd_type f)")
    case True
    with Cons.prems obtain d where d: "js_get dts (fd_type f) = Some d"
      and rec: "process_fields dts t fs (q @ [d], found @ [(fd_type f, d)]) = Inr (q', found')"
      by (auto split: option.splits)
    from Cons.IH [OF rec] obtain new where
      "q' = (q @ [d]) @ map snd new" "found' = (found @ [(fd_type f, d)]) @ new"
      "distinct (map fst new)" "js_keys new \<inter> js_keys (found @ [(fd_type f, d)]) = {}"
      "\<forall>(n, d) \<in> set new. js_get dts n = Some d \<and> (\<exists>f \<in> set fs. is_complex f \<and> fd_type f = n)"
      "\<forall>f \<in> set fs. is_complex f \<longrightarrow> fd_type f \<in> js_keys found'"
      by blast
    with True d show ?thesis
      by (intro exI [of _ "(fd_type f, d) # new"]) (auto simp: sviz_simps js_keys_def)
  next
    case False
    with Cons.prems have rec: "process_fields dts t fs (q, found) = Inr (q', found')"
      by simp
    from Cons.IH [OF rec] obtain new where
      "q' = q @ map snd new" "found' = found @ new" "distinct (map fst new)"
      "js_keys new \<inter> js_keys found = {}"
      "\<forall>(n, d) \<in> set new. js_get dts n = Some d \<and> (\<exists>f \<in> set fs. is_complex f \<and> fd_type f = n)"
      "\<forall>f \<in> set fs. is_complex f \<longrightarrow> fd_type f \<in> js_keys found'"
      by blast
    with False show ?thesis
      by (intro exI [of _ new]) (auto simp: sviz_simps)
  qed
qed

lemma process_fields_Inl:
  "process_fields dts t fs (q, found) = Inl e \<Longrightarrow>
   \<exists>f \<in> set fs. is_complex f \<and> js_get dts (fd_type f) = None \<and>
     e = SubtypeNotFound (fd_type f) (md_name t)"
  by (induction fs arbitrary: q found) (auto split: if_splits option.splits)

text \<open>
  One pass of the inner loop lowers the termination measure of the outer loop: twice
  the number of registry types not yet recorded, plus the length of the queue. A pass
  pops one type and queues exactly as many types as it records.
\<close>

lemma process_fields_measure:
  assumes "process_fields dts t fs (q, found) = Inr (q', found')"
  shows "2 * card (js_keys dts - js_keys found') + length q'
           < 2 * card (js_keys dts - js_keys found) + Suc (length q)"
proof -
  from process_fields_Inr [OF assms] obtain new where
    q': "q' = q @ map snd new" and f': "found' = found @ new"
    and dist: "distinct (map fst new)" and disj: "js_keys new \<inter> js_keys found = {}"
    and reg: "\<forall>(n, d) \<in> set new. js_get dts n = Some d"
    by blast
  from reg have "js_keys new \<subseteq> js_keys dts"
    by (force simp: js_keys_def dest: js_get_Some_key)
  with disj have "js_keys new \<subseteq> js_keys dts - js_keys found" by blast
  from card_minus_append [OF dist this js_keys_finite]
  have "card (js_keys dts - js_keys found') + length new = card (js_keys dts - js_keys found)"
    by (simp add: f')
  then show ?thesis by (simp add: q')
qed

text \<open>The outer \<open>while (typesToProcess.length > 0)\<close> loop, \<open>shift\<close> taking the head.\<close>

function resolve_loop :: "ros_datatypes \<Rightarrow> msg_def list \<Rightarrow> ros_datatypes \<Rightarrow> resolve_error + ros_datatypes" where
  "resolve_loop dts [] found = Inr found"
| "resolve_loop dts (t # q) found =
     (case process_fields dts t (md_definitions t) (q, found) of
        Inl e \<Rightarrow> Inl e
      | Inr (q', found') \<Rightarrow> resolve_loop dts q' found')"
  by pat_completeness auto
termination
proof (relation "measure (\<lambda>(dts, q, found). 2 * card (js_keys dts - js_keys found) + length q)")
  show "wf (measure (\<lambda>(dts, q, found). 2 * card (js_keys dts - js_keys found) + length q))"
    by simp
next
  fix dts t q found x q' found'
  assume "process_fields dts t (md_definitions t) (q, found) = Inr x" and "(q', found') = x"
  then have "process_fields dts t (md_definitions t) (q, found) = Inr (q', found')" by simp
  from process_fields_measure [OF this]
  show "((dts, q', found'), dts, t # q, found)
          \<in> measure (\<lambda>(dts, q, found). 2 * card (js_keys dts - js_keys found) + length q)"
    by simp
qed

text \<open>
  \<open>typesToProcess = [parsedMsgdef]\<close>, \<open>typesForMessage = new Map()\<close>: the root type
  starts the queue but is not recorded in the result.
\<close>

definition resolve :: "ros_datatypes \<Rightarrow> msg_def \<Rightarrow> resolve_error + ros_datatypes" where
  "resolve dts root = resolve_loop dts [root] []"

subsection \<open>The types a message type needs\<close>

text \<open>
  The abstract specification: the names reachable from the root along complex fields,
  each step through the registry's definition of the name.
\<close>

inductive reaches :: "ros_datatypes \<Rightarrow> msg_def \<Rightarrow> string \<Rightarrow> bool" for dts root where
  root_field: "f \<in> set (md_definitions root) \<Longrightarrow> is_complex f \<Longrightarrow> reaches dts root (fd_type f)"
| sub_field: "reaches dts root n \<Longrightarrow> js_get dts n = Some d \<Longrightarrow> f \<in> set (md_definitions d) \<Longrightarrow>
    is_complex f \<Longrightarrow> reaches dts root (fd_type f)"

definition closed_in :: "ros_datatypes \<Rightarrow> msg_def \<Rightarrow> bool" where
  "closed_in found d \<longleftrightarrow> (\<forall>f \<in> set (md_definitions d). is_complex f \<longrightarrow> fd_type f \<in> js_keys found)"

text \<open>
  The loop invariant: recorded names are distinct, come from the registry and are
  needed; every type seen (the root and the recorded ones) is still queued or has all
  its complex fields recorded; the queue holds only types seen.
\<close>

definition closure_inv :: "ros_datatypes \<Rightarrow> msg_def \<Rightarrow> msg_def list \<Rightarrow> ros_datatypes \<Rightarrow> bool" where
  "closure_inv dts root q found \<longleftrightarrow>
     distinct (map fst found) \<and>
     (\<forall>(n, d) \<in> set found. js_get dts n = Some d \<and> reaches dts root n) \<and>
     set q \<subseteq> insert root (snd ` set found) \<and>
     (\<forall>d \<in> insert root (snd ` set found). d \<in> set q \<or> closed_in found d)"

lemma closure_inv_init: "closure_inv dts root [root] []"
  by (simp add: closure_inv_def)

lemma seen_fields_reach:
  assumes "(\<forall>(n, d) \<in> set found. js_get dts n = Some d \<and> reaches dts root n)"
    and "t \<in> insert root (snd ` set found)" and "f \<in> set (md_definitions t)" and "is_complex f"
  shows "reaches dts root (fd_type f)"
  using assms by (auto intro: reaches.intros)

lemma closure_inv_step:
  assumes inv: "closure_inv dts root (t # q) found"
    and pf: "process_fields dts t (md_definitions t) (q, found) = Inr (q', found')"
  shows "closure_inv dts root q' found'"
proof -
  from process_fields_Inr [OF pf] obtain new where
    q': "q' = q @ map snd new" and f': "found' = found @ new"
    and dist: "distinct (map fst new)" and disj: "js_keys new \<inter> js_keys found = {}"
    and reg: "\<forall>(n, d) \<in> set new. js_get dts n = Some d \<and>
                (\<exists>f \<in> set (md_definitions t). is_complex f \<and> fd_type f = n)"
    and cl: "\<forall>f \<in> set (md_definitions t). is_complex f \<longrightarrow> fd_type f \<in> js_keys found'"
    by blast
  from inv have old: "\<forall>(n, d) \<in> set found. js_get dts n = Some d \<and> reaches dts root n"
    and t_seen: "t \<in> insert root (snd ` set found)"
    by (auto simp: closure_inv_def)
  have "\<forall>(n, d) \<in> set new. js_get dts n = Some d \<and> reaches dts root n"
    using reg seen_fields_reach [OF old t_seen] by fast
  with old have entries: "\<forall>(n, d) \<in> set found'. js_get dts n = Some d \<and> reaches dts root n"
    by (auto simp: f')
  have distinct': "distinct (map fst found')"
    using inv dist disj by (auto simp: closure_inv_def f' js_keys_def)
  have queue': "set q' \<subseteq> insert root (snd ` set found')"
    using inv by (auto simp: closure_inv_def q' f')
  have "d \<in> set q' \<or> closed_in found' d" if "d \<in> insert root (snd ` set found')" for d
  proof (cases "d \<in> snd ` set new")
    case True
    then show ?thesis by (simp add: q')
  next
    case False
    with that have "d \<in> insert root (snd ` set found)" by (auto simp: f')
    with inv have "d \<in> set (t # q) \<or> closed_in found d" by (auto simp: closure_inv_def)
    then show ?thesis
      using cl by (auto simp: q' f' closed_in_def)
  qed
  with entries distinct' queue' show ?thesis
    by (simp add: closure_inv_def)
qed

lemma closure_inv_error:
  assumes inv: "closure_inv dts root (t # q) found"
    and pf: "process_fields dts t (md_definitions t) (q, found) = Inl e"
  shows "\<exists>n p. e = SubtypeNotFound n p \<and> reaches dts root n \<and> js_get dts n = None"
proof -
  from process_fields_Inl [OF pf] obtain f where
    "f \<in> set (md_definitions t)" "is_complex f" "js_get dts (fd_type f) = None"
    "e = SubtypeNotFound (fd_type f) (md_name t)"
    by blast
  moreover from inv have "(\<forall>(n, d) \<in> set found. js_get dts n = Some d \<and> reaches dts root n)"
    and "t \<in> insert root (snd ` set found)"
    by (auto simp: closure_inv_def)
  ultimately show ?thesis using seen_fields_reach by blast
qed

lemma resolve_loop_inv:
  "closure_inv dts root q found \<Longrightarrow>
   (resolve_loop dts q found = Inr r \<longrightarrow> closure_inv dts root [] r) \<and>
   (resolve_loop dts q found = Inl e \<longrightarrow>
      (\<exists>n p. e = SubtypeNotFound n p \<and> reaches dts root n \<and> js_get dts n = None))"
proof (induction dts q found rule: resolve_loop.induct)
  case (1 dts found)
  then show ?case by auto
next
  case (2 dts t q found)
  show ?case
  proof (cases "process_fields dts t (md_definitions t) (q, found)")
    case (Inl e')
    then show ?thesis using closure_inv_error [OF "2.prems" Inl] by auto
  next
    case (Inr p)
    obtain q' found' where p: "p = (q', found')" by fastforce
    with Inr have pf: "process_fields dts t (md_definitions t) (q, found) = Inr (q', found')"
      by simp
    from "2.IH" [OF Inr p [symmetric] closure_inv_step [OF "2.prems" pf]] pf
    show ?thesis by simp
  qed
qed

text \<open>At the end of the loop the recorded names are exactly the reachable ones.\<close>

lemma closure_inv_final_keys:
  assumes inv: "closure_inv dts root [] r"
  shows "js_keys r = {n. reaches dts root n}"
proof
  show "js_keys r \<subseteq> {n. reaches dts root n}"
    using inv by (auto simp: closure_inv_def js_keys_def)
next
  from inv have closed: "\<forall>d \<in> insert root (snd ` set r). closed_in r d"
    and dist: "distinct (map fst r)"
    and entries: "\<forall>(n, d) \<in> set r. js_get dts n = Some d"
    by (auto simp: closure_inv_def)
  have "n \<in> js_keys r" if "reaches dts root n" for n
    using that
  proof (induction rule: reaches.induct)
    case (root_field f)
    with closed show ?case by (auto simp: closed_in_def)
  next
    case (sub_field n d f)
    from \<open>n \<in> js_keys r\<close> obtain d' where nd': "(n, d') \<in> set r"
      by (auto simp: js_keys_def)
    with entries sub_field.hyps(2) have "d' = d" by fastforce
    with nd' have "d \<in> snd ` set r" by force
    with closed sub_field.hyps(3,4) show ?case by (auto simp: closed_in_def)
  qed
  then show "{n. reaches dts root n} \<subseteq> js_keys r" by blast
qed

lemma resolve_Inr_inv: "resolve dts root = Inr found \<Longrightarrow> closure_inv dts root [] found"
  using resolve_loop_inv [OF closure_inv_init] by (simp add: resolve_def)

lemma resolve_Inl_inv:
  "resolve dts root = Inl e \<Longrightarrow>
   \<exists>n p. e = SubtypeNotFound n p \<and> reaches dts root n \<and> js_get dts n = None"
  using resolve_loop_inv [OF closure_inv_init] by (simp add: resolve_def)

subsection \<open>Example registry\<close>

text \<open>A fragment of the ROS 2 well-known types, used by the witnesses below.\<close>

definition ex_time :: msg_def where
  "ex_time = \<lparr>md_name = Some ''builtin_interfaces/Time'', md_definitions =
     [\<lparr>fd_name = ''sec'', fd_type = ''int32'', fd_is_complex = Some False\<rparr>,
      \<lparr>fd_name = ''nanosec'', fd_type = ''uint32'', fd_is_complex = Some False\<rparr>]\<rparr>"

definition ex_header :: msg_def where
  "ex_header = \<lparr>md_name = Some ''std_msgs/Header'', md_definitions =
     [\<lparr>fd_name = ''stamp'', fd_type = ''builtin_interfaces/Time'', fd_is_complex = Some True\<rparr>,
      \<lparr>fd_name = ''frame_id'', fd_type = ''string'', fd_is_complex = None\<rparr>]\<rparr>"

definition ex_point :: msg_def where
  "ex_point = \<lparr>md_name = Some ''geometry_msgs/Point'', md_definitions =
     [\<lparr>fd_name = ''x'', fd_type = ''float64'', fd_is_complex = Some False\<rparr>,
      \<lparr>fd_name = ''y'', fd_type = ''float64'', fd_is_complex = Some False\<rparr>,
      \<lparr>fd_name = ''z'', fd_type = ''float64'', fd_is_complex = Some False\<rparr>]\<rparr>"

definition ex_pose :: msg_def where
  "ex_pose = \<lparr>md_name = Some ''geometry_msgs/Pose'', md_definitions =
     [\<lparr>fd_name = ''position'', fd_type = ''geometry_msgs/Point'', fd_is_complex = Some True\<rparr>,
      \<lparr>fd_name = ''orientation'', fd_type = ''geometry_msgs/Quaternion'', fd_is_complex = Some True\<rparr>]\<rparr>"

definition ex_quaternion :: msg_def where
  "ex_quaternion = \<lparr>md_name = Some ''geometry_msgs/Quaternion'', md_definitions =
     [\<lparr>fd_name = ''w'', fd_type = ''float64'', fd_is_complex = Some False\<rparr>]\<rparr>"

definition ex_pose_stamped :: msg_def where
  "ex_pose_stamped = \<lparr>md_name = Some ''geometry_msgs/PoseStamped'', md_definitions =
     [\<lparr>fd_name = ''header'', fd_type = ''std_msgs/Header'', fd_is_complex = Some True\<rparr>,
      \<lparr>fd_name = ''pose'', fd_type = ''geometry_msgs/Pose'', fd_is_complex = Some True\<rparr>]\<rparr>"

definition ex_registry :: ros_datatypes where
  "ex_registry = [(''geometry_msgs/Point'', ex_point), (''builtin_interfaces/Time'', ex_time),
     (''std_msgs/Header'', ex_header), (''geometry_msgs/Pose'', ex_pose),
     (''geometry_msgs/Quaternion'', ex_quaternion),
     (''geometry_msgs/PoseStamped'', ex_pose_stamped)]"

text \<open>The same registry without the quaternion type.\<close>

definition ex_registry_partial :: ros_datatypes where
  "ex_registry_partial = [(''geometry_msgs/Point'', ex_point), (''builtin_interfaces/Time'', ex_time),
     (''std_msgs/Header'', ex_header), (''geometry_msgs/Pose'', ex_pose)]"

lemmas ex_registry_defs = ex_registry_def ex_registry_partial_def ex_pose_stamped_def
  ex_header_def ex_pose_def ex_time_def ex_point_def ex_quaternion_def

lemma resolve_ex_registry:
  "resolve ex_registry ex_pose_stamped =
     Inr [(''std_msgs/Header'', ex_header), (''geometry_msgs/Pose'', ex_pose),
          (''builtin_interfaces/Time'', ex_time), (''geometry_msgs/Point'', ex_point),
          (''geometry_msgs/Quaternion'', ex_quaternion)]"
  by (simp add: resolve_def ex_registry_defs is_complex_def js_has_def js_get_def)

lemma resolve_ex_registry_partial:
  "resolve ex_registry_partial ex_pose_stamped =
     Inl (SubtypeNotFound ''geometry_msgs/Quaternion'' (Some ''geometry_msgs/Pose''))"
  by (simp add: resolve_def ex_registry_defs is_complex_def js_has_def js_get_def)

subsection \<open>Properties of the resolver\<close>

text \<open>
  C1: when the resolver returns, the types it recorded are exactly the complex types
  reachable from the topic's type, each recorded once, each with its registry entry.
\<close>

theorem resolve_closure:
  assumes "resolve dts root = Inr found"
  shows "js_keys found = {n. reaches dts root n} \<and> distinct (map fst found) \<and>
         (\<forall>(n, d) \<in> set found. js_get dts n = Some d)"
proof -
  from resolve_Inr_inv [OF assms] have inv: "closure_inv dts root [] found" .
  then have "js_keys found = {n. reaches dts root n}" by (rule closure_inv_final_keys)
  with inv show ?thesis by (auto simp: closure_inv_def)
qed

theorem resolve_closure_witness:
  "js_keys [(''std_msgs/Header'', ex_header), (''geometry_msgs/Pose'', ex_pose),
          (''builtin_interfaces/Time'', ex_time), (''geometry_msgs/Point'', ex_point),
          (''geometry_msgs/Quaternion'', ex_quaternion)]
     = {n. reaches ex_registry ex_pose_stamped n}"
  using resolve_closure [OF resolve_ex_registry] by blast

text \<open>
  C2: the resolver throws only for a complex type that the topic's type really needs
  and that the registry lacks.
\<close>

theorem resolve_missing_subtype:
  assumes "resolve dts root = Inl e"
  shows "\<exists>n p. e = SubtypeNotFound n p \<and> reaches dts root n \<and> js_get dts n = None"
  using resolve_Inl_inv [OF assms] .

theorem resolve_missing_subtype_witness:
  "reaches ex_registry_partial ex_pose_stamped ''geometry_msgs/Quaternion'' \<and>
   js_get ex_registry_partial ''geometry_msgs/Quaternion'' = None"
  using resolve_missing_subtype [OF resolve_ex_registry_partial] by simp

text \<open>
  C3: the resolver succeeds exactly when every type the topic's type needs is in the
  registry (the loop always terminates, so it fails only by throwing).
\<close>

theorem resolve_succeeds_iff:
  "(\<exists>found. resolve dts root = Inr found) \<longleftrightarrow>
   (\<forall>n. reaches dts root n \<longrightarrow> js_get dts n \<noteq> None)"
proof
  assume "\<exists>found. resolve dts root = Inr found"
  then obtain found where "closure_inv dts root [] found"
    using resolve_Inr_inv by blast
  then have "js_keys found = {n. reaches dts root n}" and "\<forall>(n, d) \<in> set found. js_get dts n = Some d"
    by (auto simp: closure_inv_final_keys closure_inv_def)
  then show "\<forall>n. reaches dts root n \<longrightarrow> js_get dts n \<noteq> None"
    by (fastforce simp: js_keys_def)
next
  assume all: "\<forall>n. reaches dts root n \<longrightarrow> js_get dts n \<noteq> None"
  show "\<exists>found. resolve dts root = Inr found"
  proof (cases "resolve dts root")
    case (Inl e)
    with resolve_Inl_inv all show ?thesis by blast
  qed simp
qed

lemma reaches_ex_quaternion:
  assumes "js_get dts ''geometry_msgs/Pose'' = Some ex_pose"
  shows "reaches dts ex_pose_stamped ''geometry_msgs/Quaternion''"
proof -
  have "reaches dts ex_pose_stamped
          (fd_type \<lparr>fd_name = ''pose'', fd_type = ''geometry_msgs/Pose'', fd_is_complex = Some True\<rparr>)"
    by (rule reaches.root_field) (simp_all add: ex_pose_stamped_def is_complex_def)
  then have pose: "reaches dts ex_pose_stamped ''geometry_msgs/Pose''" by simp
  have "reaches dts ex_pose_stamped
          (fd_type \<lparr>fd_name = ''orientation'', fd_type = ''geometry_msgs/Quaternion'',
                    fd_is_complex = Some True\<rparr>)"
    by (rule reaches.sub_field [OF pose assms]) (simp_all add: ex_pose_def is_complex_def)
  then show ?thesis by simp
qed

theorem resolve_succeeds_iff_witness:
  "\<not> (\<exists>found. resolve ex_registry_partial ex_pose_stamped = Inr found)"
proof -
  have "js_get ex_registry_partial ''geometry_msgs/Pose'' = Some ex_pose"
    by (simp add: ex_registry_partial_def js_get_def)
  from reaches_ex_quaternion [OF this]
  have r: "reaches ex_registry_partial ex_pose_stamped ''geometry_msgs/Quaternion''" .
  have n: "js_get ex_registry_partial ''geometry_msgs/Quaternion'' = None"
    by (simp add: ex_registry_partial_def js_get_def)
  from r n have "\<not> (\<forall>n. reaches ex_registry_partial ex_pose_stamped n \<longrightarrow> js_get ex_registry_partial n \<noteq> None)"
    by blast
  then show ?thesis
    using resolve_succeeds_iff [of ex_registry_partial ex_pose_stamped] by blast
qed

text \<open>
  The resolver never records the topic's own type, only the types below it: for a
  type with no complex field the schema document built from the result is empty.
\<close>

theorem resolve_omits_root:
  "resolve ex_registry ex_point = Inr []"
  by (simp add: resolve_def ex_point_def is_complex_def)

end
