(* ===== verification/LogSource.thy ===== *)
theory LogSource
  imports Prelude Time SchemaResolver "HOL-Library.Multiset"
begin

text \<open>
  The log source \<open>RosDb3IterableSource\<close>
  (src/packages/studio-base/src/players/IterablePlayer/rosdb3/RosDb3IterableSource.ts):
  its state (the opened bag and the time bounds), \<open>initialize\<close>, \<open>messageIterator\<close>
  and \<open>getBackfillMessages\<close>. The bag of \<open>@foxglove/rosbag2-web\<close> is a library: it is
  modelled by what it returns (time range, topic definitions, message counts) and by
  its message query, which keeps the messages of the requested topics with
  \<open>startTime \<le> timestamp < endTime\<close>, in timestamp order across all segment files.
  Fetching the SQL engine and opening the files are I/O and are not modelled.
\<close>

subsection \<open>Data\<close>

record topic_def =
  td_name :: string
  td_type :: string
  td_serialization_format :: string

record raw_message =
  rm_topic :: topic_def
  rm_timestamp :: time
  rm_data :: bytes

record bag =
  bag_start :: time
  bag_end :: time
  bag_topics :: "topic_def list"
  bag_message_counts :: "(string, nat) js_map"
  bag_messages :: "raw_message list"

text \<open>\<open>TopicWithDecodingInfo\<close>: the schema is the ordered list of type definitions that
  \<open>stringify\<close> serialises and \<open>TextEncoder\<close> encodes.\<close>

record topic_info =
  ti_name :: string
  ti_schema_name :: string
  ti_message_encoding :: string
  ti_schema_data :: "ros_datatypes option"
  ti_schema_encoding :: "string option"

datatype severity = Warn | Error

record player_problem =
  pp_severity :: severity
  pp_message :: string
  pp_tip :: "string option"

record initialization =
  init_topics :: "topic_info list"
  init_topic_stats :: "(string, nat) js_map"
  init_start :: time
  init_end :: time
  init_problems :: "player_problem list"
  init_profile :: string
  init_datatypes :: ros_datatypes

record source =
  src_bag :: "bag option"
  src_start :: time
  src_end :: time

datatype source_error =
    NoMessages
  | SubtypeMissing resolve_error
  | NotInitialized
  | InvalidTime

definition time_zero :: time where
  "time_zero = \<lparr>sec = 0, nsec = 0\<rparr>"

text \<open>The constructor: no bag yet, both bounds \<open>{sec: 0, nsec: 0}\<close>.\<close>

definition new_source :: source where
  "new_source = \<lparr>src_bag = None, src_start = time_zero, src_end = time_zero\<rparr>"

subsection \<open>initialize\<close>

text \<open>The \<open>for \<dots> break\<close> loop over the message counts.\<close>

fun has_any_messages :: "nat list \<Rightarrow> bool" where
  "has_any_messages [] = False"
| "has_any_messages (c # cs) = (if 0 < c then True else has_any_messages cs)"

definition quote_char :: char where
  "quote_char = CHR 0x22"

definition unsupported_message :: "topic_def \<Rightarrow> string" where
  "unsupported_message td =
     ''Topic '' @ [quote_char] @ td_name td @ [quote_char] @ '' has unsupported datatype '' @
     [quote_char] @ td_type td @ [quote_char]"

definition unsupported_tip :: string where
  "unsupported_tip = ''ROS 2 .db3 files do not contain message definitions, so only well-known ROS types are supported in sviz. As a workaround, you can convert the db3 file to mcap using the mcap CLI.''"

definition unsupported_problem :: "topic_def \<Rightarrow> player_problem" where
  "unsupported_problem td =
     \<lparr>pp_severity = Warn, pp_message = unsupported_message td, pp_tip = Some unsupported_tip\<rparr>"

definition topic_of_def :: "topic_def \<Rightarrow> topic_info" where
  "topic_of_def td =
     \<lparr>ti_name = td_name td, ti_schema_name = td_type td,
      ti_message_encoding = td_serialization_format td,
      ti_schema_data = None, ti_schema_encoding = None\<rparr>"

text \<open>
  The loop over the topic definitions, with its three accumulators \<open>problems\<close>,
  \<open>topics\<close> and \<open>topicStats\<close>. A topic whose type the registry lacks gets a warning
  and is not pushed to \<open>topics\<close>; its count is still recorded. A topic whose type is
  known gets the resolved closure as its schema; a missing subtype throws out of
  \<open>initialize\<close>.
\<close>

definition record_count :: "(string, nat) js_map \<Rightarrow> topic_def \<Rightarrow> (string, nat) js_map \<Rightarrow> (string, nat) js_map" where
  "record_count counts td stats =
     (case js_get counts (td_name td) of
        None \<Rightarrow> stats
      | Some n \<Rightarrow> js_set stats (td_name td) n)"

definition resolved_topic :: "topic_def \<Rightarrow> ros_datatypes \<Rightarrow> topic_info" where
  "resolved_topic td found =
     (topic_of_def td)\<lparr>ti_schema_data := Some found, ti_schema_encoding := Some ''ros2msg''\<rparr>"

fun init_topic_loop ::
  "ros_datatypes \<Rightarrow> (string, nat) js_map \<Rightarrow> topic_def list \<Rightarrow>
   player_problem list \<times> topic_info list \<times> (string, nat) js_map \<Rightarrow>
   source_error + player_problem list \<times> topic_info list \<times> (string, nat) js_map" where
  "init_topic_loop dts counts [] acc = Inr acc"
| "init_topic_loop dts counts (td # tds) (problems, topics, stats) =
     (let stats' = record_count counts td stats
      in case js_get dts (td_type td) of
           None \<Rightarrow> init_topic_loop dts counts tds (problems @ [unsupported_problem td], topics, stats')
         | Some def \<Rightarrow>
             (case resolve dts def of
                Inl e \<Rightarrow> Inl (SubtypeMissing e)
              | Inr found \<Rightarrow>
                  init_topic_loop dts counts tds
                    (problems, topics @ [resolved_topic td found], stats')))"

text \<open>
  \<open>initialize\<close> stores the bag before it checks anything, and the bounds only at the
  end: a failed initialisation leaves the bag set and the bounds at zero. The result
  is the outcome paired with the new state.
\<close>

definition initialize ::
  "ros_datatypes \<Rightarrow> bag \<Rightarrow> source \<Rightarrow> (source_error + initialization) \<times> source" where
  "initialize dts b s =
     (let s1 = s\<lparr>src_bag := Some b\<rparr>
      in if \<not> has_any_messages (map snd (bag_message_counts b)) then (Inl NoMessages, s1)
         else case init_topic_loop dts (bag_message_counts b) (bag_topics b) ([], [], []) of
                Inl e \<Rightarrow> (Inl e, s1)
              | Inr (problems, topics, stats) \<Rightarrow>
                  (Inr \<lparr>init_topics = topics, init_topic_stats = stats,
                        init_start = bag_start b, init_end = bag_end b,
                        init_problems = problems, init_profile = ''ros2'',
                        init_datatypes = dts\<rparr>,
                   s1\<lparr>src_start := bag_start b, src_end := bag_end b\<rparr>))"

subsection \<open>messageIterator\<close>

record message_event =
  me_topic :: string
  me_receive_time :: time
  me_message :: bytes
  me_size_in_bytes :: nat
  me_schema_name :: string

datatype iterator_result = MessageEventResult message_event

record iterator_args =
  it_topics :: "string list"
  it_start :: "time option"
  it_end :: "time option"

text \<open>The bag's message query (library): \<open>startTime \<le> t < endTime\<close>, ordered by time.\<close>

definition in_query :: "string list \<Rightarrow> time \<Rightarrow> time \<Rightarrow> raw_message \<Rightarrow> bool" where
  "in_query topics start stop m \<longleftrightarrow>
     td_name (rm_topic m) \<in> set topics \<and>
     to_nsec start \<le> to_nsec (rm_timestamp m) \<and> to_nsec (rm_timestamp m) < to_nsec stop"

definition read_messages :: "bag \<Rightarrow> time \<Rightarrow> time \<Rightarrow> string list \<Rightarrow> raw_message list" where
  "read_messages b start stop topics =
     sort_key (\<lambda>m. to_nsec (rm_timestamp m)) (filter (in_query topics start stop) (bag_messages b))"

definition event_of :: "raw_message \<Rightarrow> iterator_result" where
  "event_of m = MessageEventResult
     \<lparr>me_topic = td_name (rm_topic m), me_receive_time = rm_timestamp m, me_message = rm_data m,
      me_size_in_bytes = length (rm_data m), me_schema_name = td_type (rm_topic m)\<rparr>"

definition one_nsec :: time where
  "one_nsec = \<lparr>sec = 0, nsec = 1\<rparr>"

definition eff_start :: "iterator_args \<Rightarrow> source \<Rightarrow> time" where
  "eff_start opt s = (case it_start opt of Some t \<Rightarrow> t | None \<Rightarrow> src_start s)"

definition eff_end :: "iterator_args \<Rightarrow> source \<Rightarrow> time" where
  "eff_end opt s = (case it_end opt of Some t \<Rightarrow> t | None \<Rightarrow> src_end s)"

text \<open>
  The generator, as the list of everything it yields. It throws when no bag is open,
  yields nothing for an empty topic set, and widens the end by one nanosecond before
  querying the bag, which excludes the end time itself.
\<close>

definition message_iterator :: "iterator_args \<Rightarrow> source \<Rightarrow> source_error + iterator_result list" where
  "message_iterator opt s =
     (case src_bag s of
        None \<Rightarrow> Inl NotInitialized
      | Some b \<Rightarrow>
          if it_topics opt = [] then Inr []
          else (case add_time (eff_end opt s) one_nsec of
                  None \<Rightarrow> Inl InvalidTime
                | Some inclusive_end \<Rightarrow>
                    Inr (map event_of (read_messages b (eff_start opt s) inclusive_end (it_topics opt)))))"

text \<open>\<open>getBackfillMessages\<close> ignores its arguments and returns no message.\<close>

definition get_backfill_messages :: "string list \<Rightarrow> time \<Rightarrow> source \<Rightarrow> message_event list" where
  "get_backfill_messages topics t s = []"

subsection \<open>Lemmas on the topic loop\<close>

definition supported :: "ros_datatypes \<Rightarrow> topic_def \<Rightarrow> bool" where
  "supported dts td \<longleftrightarrow> js_get dts (td_type td) \<noteq> None"

lemma has_any_messages_iff: "has_any_messages cs \<longleftrightarrow> (\<exists>c \<in> set cs. 0 < c)"
  by (induction cs) auto

text \<open>One turn of the topic loop, when the loop as a whole returns.\<close>

lemma init_topic_loop_Cons_Inr:
  assumes "init_topic_loop dts counts (td # tds) (ps, ts, st) = Inr r"
  obtains (unsupported) "\<not> supported dts td"
      and "init_topic_loop dts counts tds (ps @ [unsupported_problem td], ts, record_count counts td st) = Inr r"
  | (resolved) def found where "js_get dts (td_type td) = Some def" and "resolve dts def = Inr found"
      and "init_topic_loop dts counts tds (ps, ts @ [resolved_topic td found], record_count counts td st) = Inr r"
  using assms by (auto simp: supported_def Let_def split: option.splits sum.splits)

lemma init_topic_loop_problems:
  "init_topic_loop dts counts tds (ps, ts, st) = Inr (ps', ts', st') \<Longrightarrow>
   ps' = ps @ map unsupported_problem (filter (\<lambda>td. \<not> supported dts td) tds)"
proof (induction tds arbitrary: ps ts st)
  case (Cons td tds)
  from Cons.prems show ?case
    by (cases rule: init_topic_loop_Cons_Inr) (auto dest!: Cons.IH simp: supported_def)
qed simp

lemma init_topic_loop_names:
  "init_topic_loop dts counts tds (ps, ts, st) = Inr (ps', ts', st') \<Longrightarrow>
   map ti_name ts' = map ti_name ts @ map td_name (filter (supported dts) tds)"
proof (induction tds arbitrary: ps ts st)
  case (Cons td tds)
  from Cons.prems show ?case
    by (cases rule: init_topic_loop_Cons_Inr)
       (auto dest!: Cons.IH simp: supported_def resolved_topic_def topic_of_def_def)
qed simp

definition schema_resolved :: "ros_datatypes \<Rightarrow> topic_info \<Rightarrow> bool" where
  "schema_resolved dts t \<longleftrightarrow>
     (\<exists>def found. js_get dts (ti_schema_name t) = Some def \<and> resolve dts def = Inr found \<and>
        ti_schema_data t = Some found \<and> ti_schema_encoding t = Some ''ros2msg'')"

lemma init_topic_loop_schema:
  "init_topic_loop dts counts tds (ps, ts, st) = Inr (ps', ts', st') \<Longrightarrow>
   \<forall>t \<in> set ts. schema_resolved dts t \<Longrightarrow> \<forall>t \<in> set ts'. schema_resolved dts t"
proof (induction tds arbitrary: ps ts st)
  case (Cons td tds)
  from Cons.prems(1) show ?case
  proof (cases rule: init_topic_loop_Cons_Inr)
    case unsupported
    with Cons.prems(2) show ?thesis by (auto dest!: Cons.IH)
  next
    case (resolved def found)
    then have "schema_resolved dts (resolved_topic td found)"
      by (simp add: schema_resolved_def resolved_topic_def topic_of_def_def)
    with resolved Cons.prems(2) show ?thesis by (auto dest!: Cons.IH)
  qed
qed simp

lemma init_topic_loop_stats:
  "init_topic_loop dts counts tds (ps, ts, st) = Inr (ps', ts', st') \<Longrightarrow>
   js_get st' n = (if n \<in> td_name ` set tds \<and> js_get counts n \<noteq> None then js_get counts n
                   else js_get st n)"
proof (induction tds arbitrary: ps ts st)
  case (Cons td tds)
  from Cons.prems show ?case
    by (cases rule: init_topic_loop_Cons_Inr)
       (auto dest!: Cons.IH simp: record_count_def split: option.splits)
qed simp

lemma init_topic_loop_Inl:
  "init_topic_loop dts counts tds acc = Inl e \<Longrightarrow>
   \<exists>r td def. e = SubtypeMissing r \<and> td \<in> set tds \<and> js_get dts (td_type td) = Some def \<and>
     resolve dts def = Inl r"
proof (induction dts counts tds acc rule: init_topic_loop.induct)
  case (2 dts counts td tds problems topics stats)
  show ?case
  proof (cases "js_get dts (td_type td)")
    case None
    with "2.prems" have "init_topic_loop dts counts tds
        (problems @ [unsupported_problem td], topics, record_count counts td stats) = Inl e"
      by (simp add: Let_def)
    from "2.IH"(1) [OF refl None this] show ?thesis by auto
  next
    case (Some def)
    show ?thesis
    proof (cases "resolve dts def")
      case (Inl r)
      with Some "2.prems" show ?thesis by (auto simp: Let_def)
    next
      case (Inr found)
      with Some "2.prems" have "init_topic_loop dts counts tds
          (problems, topics @ [resolved_topic td found], record_count counts td stats) = Inl e"
        by (simp add: Let_def)
      from "2.IH"(2) [OF refl Some Inr this] show ?thesis by auto
    qed
  qed
qed simp

lemma initialize_cases:
  "initialize dts b s = (r, s') \<Longrightarrow>
   (\<not> has_any_messages (map snd (bag_message_counts b)) \<and> r = Inl NoMessages \<and>
      s' = s\<lparr>src_bag := Some b\<rparr>) \<or>
   (has_any_messages (map snd (bag_message_counts b)) \<and>
      (\<exists>e. init_topic_loop dts (bag_message_counts b) (bag_topics b) ([], [], []) = Inl e \<and>
         r = Inl e \<and> s' = s\<lparr>src_bag := Some b\<rparr>)) \<or>
   (has_any_messages (map snd (bag_message_counts b)) \<and>
      (\<exists>ps ts st. init_topic_loop dts (bag_message_counts b) (bag_topics b) ([], [], []) = Inr (ps, ts, st) \<and>
         r = Inr \<lparr>init_topics = ts, init_topic_stats = st, init_start = bag_start b,
                  init_end = bag_end b, init_problems = ps, init_profile = ''ros2'',
                  init_datatypes = dts\<rparr> \<and>
         s' = s\<lparr>src_bag := Some b, src_start := bag_start b, src_end := bag_end b\<rparr>))"
  by (auto simp: initialize_def Let_def split: if_splits sum.splits prod.splits)

lemma initialize_Inr:
  assumes "fst (initialize dts b s) = Inr i"
  obtains ps ts st where
    "init_topic_loop dts (bag_message_counts b) (bag_topics b) ([], [], []) = Inr (ps, ts, st)"
    "i = \<lparr>init_topics = ts, init_topic_stats = st, init_start = bag_start b,
          init_end = bag_end b, init_problems = ps, init_profile = ''ros2'', init_datatypes = dts\<rparr>"
    "snd (initialize dts b s) = s\<lparr>src_bag := Some b, src_start := bag_start b, src_end := bag_end b\<rparr>"
proof -
  have eq: "initialize dts b s = (Inr i, snd (initialize dts b s))"
    using assms by (metis prod.collapse)
  show thesis using initialize_cases [OF eq] that by blast
qed

subsection \<open>Lemmas on the iterator\<close>

text \<open>
  Widening the end by one nanosecond turns the bag's exclusive bound into an inclusive
  one: a timestamp is below the widened end exactly when it is at most the end.
\<close>

lemma inclusive_end:
  "add_time e one_nsec = Some e' \<Longrightarrow> (to_nsec t < to_nsec e') \<longleftrightarrow> (to_nsec t \<le> to_nsec e)"
  by (auto dest!: add_time_to_nsec simp: one_nsec_def to_nsec_def)

definition in_window :: "string list \<Rightarrow> time \<Rightarrow> time \<Rightarrow> raw_message \<Rightarrow> bool" where
  "in_window topics start stop m \<longleftrightarrow>
     td_name (rm_topic m) \<in> set topics \<and>
     to_nsec start \<le> to_nsec (rm_timestamp m) \<and> to_nsec (rm_timestamp m) \<le> to_nsec stop"

lemma in_query_inclusive:
  "add_time e one_nsec = Some e' \<Longrightarrow> in_query topics start e' = in_window topics start e"
  by (auto simp: in_query_def in_window_def inclusive_end)

lemma message_iterator_Inr:
  assumes "message_iterator opt s = Inr evs"
  obtains "evs = []" and "it_topics opt = []"
  | b e' where "src_bag s = Some b" and "it_topics opt \<noteq> []"
      and "add_time (eff_end opt s) one_nsec = Some e'"
      and "evs = map event_of (sort_key (\<lambda>m. to_nsec (rm_timestamp m))
                 (filter (in_window (it_topics opt) (eff_start opt s) (eff_end opt s)) (bag_messages b)))"
  using assms
  by (auto simp: message_iterator_def read_messages_def in_query_inclusive
      split: option.splits if_splits)

fun event_time :: "iterator_result \<Rightarrow> time" where
  "event_time (MessageEventResult e) = me_receive_time e"

fun event_topic :: "iterator_result \<Rightarrow> string" where
  "event_topic (MessageEventResult e) = me_topic e"

lemma event_of_time [simp]: "event_time (event_of m) = rm_timestamp m"
  by (simp add: event_of_def)

lemma event_of_topic [simp]: "event_topic (event_of m) = td_name (rm_topic m)"
  by (simp add: event_of_def)

subsection \<open>Example bag\<close>

definition ex_td_a :: topic_def where
  "ex_td_a = \<lparr>td_name = ''/a'', td_type = ''geometry_msgs/Point'', td_serialization_format = ''cdr''\<rparr>"

definition ex_td_b :: topic_def where
  "ex_td_b = \<lparr>td_name = ''/b'', td_type = ''UnknownType'', td_serialization_format = ''cdr''\<rparr>"

definition ex_msg1 :: raw_message where
  "ex_msg1 = \<lparr>rm_topic = ex_td_a, rm_timestamp = \<lparr>sec = 1, nsec = 0\<rparr>, rm_data = []\<rparr>"

definition ex_msg2 :: raw_message where
  "ex_msg2 = \<lparr>rm_topic = ex_td_b, rm_timestamp = \<lparr>sec = 2, nsec = 0\<rparr>, rm_data = [3]\<rparr>"

definition ex_msg3 :: raw_message where
  "ex_msg3 = \<lparr>rm_topic = ex_td_a, rm_timestamp = \<lparr>sec = 3, nsec = 0\<rparr>, rm_data = [1, 2]\<rparr>"

text \<open>Two topics, one of an unknown type; the messages are stored out of time order.\<close>

definition ex_bag :: bag where
  "ex_bag = \<lparr>bag_start = \<lparr>sec = 1, nsec = 0\<rparr>, bag_end = \<lparr>sec = 3, nsec = 0\<rparr>,
     bag_topics = [ex_td_a, ex_td_b], bag_message_counts = [(''/a'', 2), (''/b'', 1)],
     bag_messages = [ex_msg3, ex_msg2, ex_msg1]\<rparr>"

definition ex_empty_bag :: bag where
  "ex_empty_bag = ex_bag\<lparr>bag_message_counts := [(''/a'', 0), (''/b'', 0)], bag_messages := []\<rparr>"

definition ex_opened :: source where
  "ex_opened = new_source\<lparr>src_bag := Some ex_bag, src_start := \<lparr>sec = 1, nsec = 0\<rparr>,
                          src_end := \<lparr>sec = 3, nsec = 0\<rparr>\<rparr>"

definition ex_args :: iterator_args where
  "ex_args = \<lparr>it_topics = [''/a''], it_start = None, it_end = None\<rparr>"

lemmas ex_bag_defs = ex_bag_def ex_empty_bag_def ex_td_a_def ex_td_b_def ex_msg1_def ex_msg2_def
  ex_msg3_def ex_opened_def ex_args_def new_source_def time_zero_def

lemmas ex_eval_simps = ex_bag_defs ex_registry_defs js_get_def js_set_def js_has_def resolve_def
  is_complex_def record_count_def resolved_topic_def topic_of_def_def supported_def

definition ex_init :: initialization where
  "ex_init = \<lparr>init_topics = [resolved_topic ex_td_a []],
     init_topic_stats = [(''/a'', 2), (''/b'', 1)], init_start = \<lparr>sec = 1, nsec = 0\<rparr>,
     init_end = \<lparr>sec = 3, nsec = 0\<rparr>, init_problems = [unsupported_problem ex_td_b],
     init_profile = ''ros2'', init_datatypes = ex_registry\<rparr>"

lemma initialize_ex: "initialize ex_registry ex_bag new_source = (Inr ex_init, ex_opened)"
  by (simp add: initialize_def ex_init_def ex_eval_simps)

lemma initialize_ex_empty:
  "initialize ex_registry ex_empty_bag new_source = (Inl NoMessages, new_source\<lparr>src_bag := Some ex_empty_bag\<rparr>)"
  by (simp add: initialize_def ex_bag_defs)

lemma message_iterator_ex:
  "message_iterator ex_args ex_opened = Inr [event_of ex_msg1, event_of ex_msg3]"
  by (simp add: message_iterator_def ex_bag_defs read_messages_def in_query_def to_nsec_def
      nsec_per_sec_def add_time_def fix_time_def one_nsec_def eff_start_def eff_end_def)

subsection \<open>Properties of the log source\<close>

text \<open>
  C4: every event the iterator yields is on a requested topic and its receive time
  lies in the effective window, both ends included (the one-nanosecond widening of
  the end bound makes the bag's exclusive bound inclusive).
\<close>

theorem message_iterator_window:
  assumes "message_iterator opt s = Inr evs" and "ev \<in> set evs"
  shows "event_topic ev \<in> set (it_topics opt) \<and>
         to_nsec (eff_start opt s) \<le> to_nsec (event_time ev) \<and>
         to_nsec (event_time ev) \<le> to_nsec (eff_end opt s)"
  using assms by (cases rule: message_iterator_Inr) (auto simp: in_window_def)

theorem message_iterator_window_witness:
  "to_nsec \<lparr>sec = 1, nsec = 0\<rparr> \<le> to_nsec (event_time (event_of ex_msg3)) \<and>
   to_nsec (event_time (event_of ex_msg3)) \<le> to_nsec \<lparr>sec = 3, nsec = 0\<rparr>"
  using message_iterator_window [OF message_iterator_ex, of "event_of ex_msg3"]
  by (simp add: ex_bag_defs eff_start_def eff_end_def)

text \<open>
  C5: the iterator yields exactly one event per stored message of a requested topic
  inside the inclusive window, and nothing else (equality of multisets).
\<close>

theorem message_iterator_exact:
  assumes "message_iterator opt s = Inr evs" and "src_bag s = Some b"
  shows "mset evs = image_mset event_of
           (mset (filter (in_window (it_topics opt) (eff_start opt s) (eff_end opt s)) (bag_messages b)))"
  using assms(1)
proof (cases rule: message_iterator_Inr)
  case 1
  then have "filter (in_window (it_topics opt) (eff_start opt s) (eff_end opt s)) (bag_messages b) = []"
    by (simp add: in_window_def)
  with 1 show ?thesis by simp
next
  case (2 b' e')
  with assms(2) show ?thesis by (simp add: mset_map)
qed

theorem message_iterator_exact_witness:
  "mset [event_of ex_msg1, event_of ex_msg3] =
     image_mset event_of (mset (filter (in_window [''/a''] \<lparr>sec = 1, nsec = 0\<rparr> \<lparr>sec = 3, nsec = 0\<rparr>)
        [ex_msg3, ex_msg2, ex_msg1]))"
  using message_iterator_exact [OF message_iterator_ex, of ex_bag]
  by (simp add: ex_bag_defs eff_start_def eff_end_def)

text \<open>C6: the events come in non-decreasing receive time.\<close>

theorem message_iterator_sorted:
  assumes "message_iterator opt s = Inr evs"
  shows "sorted (map (\<lambda>ev. to_nsec (event_time ev)) evs)"
  using assms
proof (cases rule: message_iterator_Inr)
  case (2 b e')
  then show ?thesis by (simp add: comp_def)
qed simp

theorem message_iterator_sorted_witness:
  "sorted (map (\<lambda>ev. to_nsec (event_time ev)) [event_of ex_msg1, event_of ex_msg3])"
  using message_iterator_sorted [OF message_iterator_ex] .

text \<open>
  C7: the iterator fails only when no bag is open, or when widening the end bound
  cannot be normalised (a negative end time).
\<close>

theorem message_iterator_error:
  assumes "message_iterator opt s = Inl e"
  shows "(src_bag s = None \<and> e = NotInitialized) \<or>
         (src_bag s \<noteq> None \<and> e = InvalidTime \<and>
          sec (eff_end opt s) + (nsec (eff_end opt s) + 1) div nsec_per_sec < 0)"
  using assms
  by (auto simp: message_iterator_def add_time_def fix_time_def one_nsec_def Let_def
      split: option.splits if_splits)

theorem message_iterator_error_witness:
  "message_iterator ex_args new_source = Inl NotInitialized \<and> src_bag new_source = None"
proof -
  have "message_iterator ex_args new_source = Inl NotInitialized"
    by (simp add: message_iterator_def new_source_def)
  with message_iterator_error [OF this] show ?thesis by simp
qed

text \<open>With an open bag and no requested topic, the iterator yields nothing.\<close>

lemma message_iterator_no_topics:
  assumes "src_bag s \<noteq> None" and "it_topics opt = []"
  shows "message_iterator opt s = Inr []"
  using assms by (auto simp: message_iterator_def)

lemma message_iterator_no_topics_ex:
  "message_iterator (ex_args\<lparr>it_topics := []\<rparr>) ex_opened = Inr []"
  by (rule message_iterator_no_topics) (simp_all add: ex_bag_defs)

text \<open>C9: initialisation fails with "no messages" exactly when every count is zero.\<close>

theorem initialize_no_messages:
  "fst (initialize dts b s) = Inl NoMessages \<longleftrightarrow> (\<forall>c \<in> set (map snd (bag_message_counts b)). c = 0)"
proof -
  have "fst (initialize dts b s) = Inl NoMessages \<longleftrightarrow>
          \<not> has_any_messages (map snd (bag_message_counts b))"
    by (auto simp: initialize_def Let_def dest!: init_topic_loop_Inl split: sum.splits prod.splits)
  then show ?thesis by (auto simp: has_any_messages_iff)
qed

theorem initialize_no_messages_witness:
  "fst (initialize ex_registry ex_empty_bag new_source) = Inl NoMessages"
  using initialize_no_messages [of ex_registry ex_empty_bag new_source]
  by (simp add: ex_bag_defs)

text \<open>
  C10: a successful initialisation lists, in order, the topics whose type the registry
  knows, and one warning per topic whose type it does not know. A topic of unknown type
  is therefore missing from the topic list.
\<close>

theorem initialize_topics:
  assumes "fst (initialize dts b s) = Inr i"
  shows "map ti_name (init_topics i) = map td_name (filter (supported dts) (bag_topics b)) \<and>
         init_problems i = map unsupported_problem (filter (\<lambda>td. \<not> supported dts td) (bag_topics b))"
  using assms
proof (cases rule: initialize_Inr)
  case (1 ps ts st)
  then show ?thesis
    using init_topic_loop_names [OF 1(1)] init_topic_loop_problems [OF 1(1)] by simp
qed

theorem initialize_topics_witness:
  "map ti_name (init_topics ex_init) = [''/a''] \<and>
   init_problems ex_init = [unsupported_problem ex_td_b]"
  using initialize_topics [of ex_registry ex_bag new_source ex_init] initialize_ex
  by (simp add: ex_eval_simps)

text \<open>C11: every listed topic carries the resolved closure of its type as a ros2msg schema.\<close>

theorem initialize_schemas:
  assumes "fst (initialize dts b s) = Inr i" and "t \<in> set (init_topics i)"
  shows "schema_resolved dts t"
  using assms(1)
proof (cases rule: initialize_Inr)
  case (1 ps ts st)
  with init_topic_loop_schema [OF 1(1)] assms(2) show ?thesis by simp
qed

theorem initialize_schemas_witness:
  "schema_resolved ex_registry (resolved_topic ex_td_a [])"
  using initialize_schemas [of ex_registry ex_bag new_source ex_init] initialize_ex
  by (simp add: ex_init_def)

text \<open>C12: the topic statistics hold the message count of every topic with a count,
  including topics of unknown type, and nothing else.\<close>

theorem initialize_topic_stats:
  assumes "fst (initialize dts b s) = Inr i"
  shows "js_get (init_topic_stats i) n =
           (if n \<in> td_name ` set (bag_topics b) then js_get (bag_message_counts b) n else None)"
  using assms
proof (cases rule: initialize_Inr)
  case (1 ps ts st)
  from init_topic_loop_stats [OF 1(1), of n] 1(2) show ?thesis
    by (auto simp: js_get_def)
qed

theorem initialize_topic_stats_witness:
  "js_get (init_topic_stats ex_init) ''/b'' = Some 1"
  using initialize_topic_stats [of ex_registry ex_bag new_source ex_init "''/b''"] initialize_ex
  by (simp add: ex_eval_simps)

end
