(* ===== verification/BlockCache.thy ===== *)
theory BlockCache
  imports Prelude LogSource "HOL-Library.Sublist"
begin

text \<open>
  The block cache that the player fills while it reads the log, and the plot panel's
  hook \<open>useAllFramesByTopic\<close> that flattens it per topic. The hook is not part of the
  repository: it is modelled from its contract (flatten in block arrival order; a topic
  with no messages in any block is absent) as an incremental cache that keeps its last
  block list and reuses its result when the new list extends it. The test
  (src/packages/studio-base/src/panels/Plot/useAllFramesByTopic.test.tsx) is replayed
  on the model.
\<close>

record 'm block =
  blk_messages_by_topic :: "(string, 'm list) js_map"
  blk_need_topics :: "string list"
  blk_size_in_bytes :: nat

record 'm message_cache =
  mc_blocks :: "'m block list"
  mc_start_time :: time

text \<open>Ingesting a sealed block appends it; earlier blocks are never touched.\<close>

definition ingest :: "'m block \<Rightarrow> 'm message_cache \<Rightarrow> 'm message_cache" where
  "ingest blk mc = mc\<lparr>mc_blocks := mc_blocks mc @ [blk]\<rparr>"

definition topic_messages :: "'m block \<Rightarrow> string \<Rightarrow> 'm list" where
  "topic_messages blk t = (case js_get (blk_messages_by_topic blk) t of None \<Rightarrow> [] | Some ms \<Rightarrow> ms)"

definition in_some_block :: "'m block list \<Rightarrow> string \<Rightarrow> bool" where
  "in_some_block bs t = list_ex (\<lambda>blk. js_has (blk_messages_by_topic blk) t) bs"

text \<open>
  The flattened view, as the contract states it: for a requested topic that some block
  has, the concatenation of the blocks' messages of that topic in arrival order;
  nothing for any other topic.
\<close>

definition flatten :: "string list \<Rightarrow> 'm block list \<Rightarrow> string \<Rightarrow> 'm list option" where
  "flatten topics bs t =
     (if t \<in> set topics \<and> in_some_block bs t then Some (concat (map (\<lambda>blk. topic_messages blk t) bs))
      else None)"

text \<open>The hook's state between renders: the topics and blocks of the last result.\<close>

record 'm frames_state =
  fs_topics :: "string list"
  fs_blocks :: "'m block list"
  fs_frames :: "(string, 'm list) js_map"

definition init_frames_state :: "'m frames_state" where
  "init_frames_state = \<lparr>fs_topics = [], fs_blocks = [], fs_frames = []\<rparr>"

text \<open>Appending one block's messages for each requested topic it has.\<close>

fun add_block :: "string list \<Rightarrow> (string, 'm list) js_map \<Rightarrow> 'm block \<Rightarrow> (string, 'm list) js_map" where
  "add_block [] acc blk = acc"
| "add_block (t # ts) acc blk =
     add_block ts
       (case js_get (blk_messages_by_topic blk) t of
          None \<Rightarrow> acc
        | Some ms \<Rightarrow> js_set acc t ((case js_get acc t of None \<Rightarrow> [] | Some old \<Rightarrow> old) @ ms))
       blk"

text \<open>
  One render of the hook: when the topics are unchanged and the new block list extends
  the one already flattened, only the new blocks are added; otherwise the result is
  rebuilt from nothing.
\<close>

definition use_all_frames_by_topic ::
  "string list \<Rightarrow> 'm block list \<Rightarrow> 'm frames_state \<Rightarrow> (string, 'm list) js_map \<times> 'm frames_state" where
  "use_all_frames_by_topic topics bs st =
     (let base = (if fs_topics st = topics \<and> prefix (fs_blocks st) bs then st
                  else init_frames_state\<lparr>fs_topics := topics\<rparr>);
          frames = foldl (add_block (remdups topics)) (fs_frames base) (drop (length (fs_blocks base)) bs)
      in (frames, \<lparr>fs_topics = topics, fs_blocks = bs, fs_frames = frames\<rparr>))"

text \<open>A sequence of renders, each with the topics and the blocks the pipeline then holds.\<close>

fun render_seq ::
  "(string list \<times> 'm block list) list \<Rightarrow> 'm frames_state \<Rightarrow> (string, 'm list) js_map list" where
  "render_seq [] st = []"
| "render_seq ((topics, bs) # rs) st =
     (let (r, st') = use_all_frames_by_topic topics bs st in r # render_seq rs st')"

subsection \<open>Lemmas\<close>

definition frames_ok :: "'m frames_state \<Rightarrow> bool" where
  "frames_ok st \<longleftrightarrow> (\<forall>t. js_get (fs_frames st) t = flatten (fs_topics st) (fs_blocks st) t)"

lemma topic_messages_absent:
  "\<not> in_some_block bs t \<Longrightarrow> concat (map (\<lambda>blk. topic_messages blk t) bs) = []"
  by (induction bs) (auto simp: in_some_block_def topic_messages_def js_has_get)

lemma add_block_get:
  "distinct ts \<Longrightarrow> js_get (add_block ts acc blk) t =
     (if t \<in> set ts \<and> js_has (blk_messages_by_topic blk) t
      then Some ((case js_get acc t of None \<Rightarrow> [] | Some old \<Rightarrow> old) @ topic_messages blk t)
      else js_get acc t)"
proof (induction ts arbitrary: acc)
  case Nil
  then show ?case by simp
next
  case (Cons t' ts)
  then show ?case
    by (cases "js_get (blk_messages_by_topic blk) t'")
       (auto simp: topic_messages_def js_has_get)
qed

lemma in_some_block_snoc:
  "in_some_block (bs @ [blk]) t \<longleftrightarrow> in_some_block bs t \<or> js_has (blk_messages_by_topic blk) t"
  by (simp add: in_some_block_def)

lemma flatten_snoc:
  "flatten topics (bs @ [blk]) t =
     (if t \<in> set topics \<and> (in_some_block bs t \<or> js_has (blk_messages_by_topic blk) t)
      then Some (concat (map (\<lambda>b. topic_messages b t) bs) @ topic_messages blk t) else None)"
  by (simp add: flatten_def in_some_block_def)

lemma add_block_flatten:
  assumes "\<forall>t. js_get acc t = flatten topics bs t"
  shows "\<forall>t. js_get (add_block (remdups topics) acc blk) t = flatten topics (bs @ [blk]) t"
proof
  fix t
  show "js_get (add_block (remdups topics) acc blk) t = flatten topics (bs @ [blk]) t"
    using assms topic_messages_absent [of bs t]
    by (auto simp: add_block_get flatten_snoc flatten_def topic_messages_def js_has_get
        in_some_block_snoc split: option.splits)
qed

lemma foldl_add_block_flatten:
  "\<forall>t. js_get acc t = flatten topics bs t \<Longrightarrow>
   \<forall>t. js_get (foldl (add_block (remdups topics)) acc new) t = flatten topics (bs @ new) t"
proof (induction new arbitrary: acc bs)
  case Nil
  then show ?case by simp
next
  case (Cons blk new)
  from add_block_flatten [OF Cons.prems] have "\<forall>t. js_get (add_block (remdups topics) acc blk) t =
      flatten topics (bs @ [blk]) t" .
  from Cons.IH [OF this] show ?case by simp
qed

lemma frames_ok_init: "frames_ok (init_frames_state\<lparr>fs_topics := topics\<rparr>)"
  by (simp add: frames_ok_def init_frames_state_def flatten_def in_some_block_def js_get_def)

lemma use_all_frames_by_topic_ok:
  assumes "frames_ok st"
  shows "js_get (fst (use_all_frames_by_topic topics bs st)) = flatten topics bs \<and>
         frames_ok (snd (use_all_frames_by_topic topics bs st))"
proof -
  define base where "base = (if fs_topics st = topics \<and> prefix (fs_blocks st) bs then st
                             else init_frames_state\<lparr>fs_topics := topics\<rparr>)"
  have ok: "frames_ok base" and tp: "fs_topics base = topics" and pf: "prefix (fs_blocks base) bs"
    using assms frames_ok_init by (auto simp: base_def init_frames_state_def)
  have bs: "bs = fs_blocks base @ drop (length (fs_blocks base)) bs"
    using pf by (auto simp: prefix_def)
  have "\<forall>t. js_get (foldl (add_block (remdups topics)) (fs_frames base) (drop (length (fs_blocks base)) bs)) t =
            flatten topics bs t"
    using foldl_add_block_flatten [of "fs_frames base" topics "fs_blocks base"] ok tp bs
    by (metis frames_ok_def)
  then show ?thesis
    by (auto simp: use_all_frames_by_topic_def base_def [symmetric] Let_def frames_ok_def)
qed

lemma frames_ok_initial: "frames_ok init_frames_state"
  using frames_ok_init [of "[]"] by (simp add: init_frames_state_def)

lemma render_seq_ok:
  "frames_ok st \<Longrightarrow> map js_get (render_seq rs st) = map (\<lambda>(ts, bs). flatten ts bs) rs"
proof (induction rs arbitrary: st)
  case Nil
  then show ?case by simp
next
  case (Cons r rs)
  obtain ts bs where r: "r = (ts, bs)" by fastforce
  from use_all_frames_by_topic_ok [OF Cons.prems, of ts bs] Cons.IH show ?case
    by (simp add: r split_def Let_def)
qed

subsection \<open>The test's scenario\<close>

text \<open>\<open>mockMessage("message", {topic})\<close>: an event on the topic (library).\<close>

definition mock_message :: "string \<Rightarrow> message_event" where
  "mock_message topic = \<lparr>me_topic = topic, me_receive_time = time_zero, me_message = [],
                         me_size_in_bytes = 0, me_schema_name = ''message''\<rparr>"

definition ex_block1 :: "message_event block" where
  "ex_block1 = \<lparr>blk_messages_by_topic = [(''topic_a'', [mock_message ''topic_a''])],
                blk_need_topics = [], blk_size_in_bytes = 1\<rparr>"

definition ex_block2 :: "message_event block" where
  "ex_block2 = \<lparr>blk_messages_by_topic = [(''topic_a'', [mock_message ''topic_a'']),
                                         (''topic_b'', [mock_message ''topic_b''])],
                blk_need_topics = [], blk_size_in_bytes = 1\<rparr>"

definition ex_initial_progress :: "message_event message_cache" where
  "ex_initial_progress = \<lparr>mc_blocks = [ex_block1], mc_start_time = time_zero\<rparr>"

definition ex_plot_topics :: "string list" where
  "ex_plot_topics = [''topic_a'', ''topic_b'']"

lemmas ex_block_defs = ex_block1_def ex_block2_def ex_initial_progress_def ex_plot_topics_def

subsection \<open>Properties of the block cache\<close>

text \<open>
  C34: over any sequence of renders, from the hook's initial state, with topics and
  block lists that may change arbitrarily between renders (blocks ingested, the list
  replaced wholesale, other topics requested), every result of the incremental hook
  is exactly the flattened view of that render's blocks for that render's topics.
\<close>

theorem render_seq_flatten:
  "map js_get (render_seq rs init_frames_state) = map (\<lambda>(ts, bs). flatten ts bs) rs"
  by (rule render_seq_ok [OF frames_ok_initial])



text \<open>
  The test "flattens blocks": after the first block the result for topics a and b
  holds a's message and no entry for b; after the second block is ingested and the hook
  re-renders, a has both of its messages in block order and b its one message.
\<close>

lemma flattens_blocks:
  "render_seq [(ex_plot_topics, mc_blocks ex_initial_progress),
               (ex_plot_topics, mc_blocks (ingest ex_block2 ex_initial_progress))] init_frames_state =
     [[(''topic_a'', [mock_message ''topic_a''])],
      [(''topic_a'', [mock_message ''topic_a'', mock_message ''topic_a'']),
       (''topic_b'', [mock_message ''topic_b''])]]"
  by (simp add: ex_block_defs ingest_def use_all_frames_by_topic_def init_frames_state_def Let_def
      js_get_def js_set_def js_has_def)


end
