(* ===== verification/H264.thy ===== *)
theory H264
  imports Prelude "HOL-Library.Sublist"
begin

text \<open>
  The H.264 bitstream inspection of \<open>@foxglove/den/video\<close> (a library that
  decodeImage.ts calls as \<open>H264.IsKeyframe\<close> and \<open>H264.ParseDecoderConfig\<close>),
  modelled from the spec: a frame is an Annex B byte stream, NAL units separated by the
  start code \<open>00 00 01\<close> (a four-byte start code \<open>00 00 00 01\<close> leaves its first
  zero as a trailing byte of the previous unit). The unit type is the low five bits of
  the unit's first byte: 5 is an IDR (keyframe) slice, 7 a sequence parameter set.
  The scan is a loop over the bytes with the current unit as accumulator; it ends
  because every call consumes at least one byte.
\<close>

unbundle bit_operations_syntax

definition start_code :: bytes where
  "start_code = [0, 0, 1]"

function chunks :: "bytes \<Rightarrow> bytes \<Rightarrow> bytes list" where
  "chunks acc [] = [acc]"
| "chunks acc (x # xs) =
     (if take 3 (x # xs) = start_code then acc # chunks [] (drop 2 xs)
      else chunks (acc @ [x]) xs)"
  by pat_completeness auto
termination
  by (relation "measure (\<lambda>(acc, xs). length xs)") auto

definition nal_units :: "bytes \<Rightarrow> bytes list" where
  "nal_units data = tl (chunks [] data)"

definition nal_type :: "bytes \<Rightarrow> nat option" where
  "nal_type u = (case u of [] \<Rightarrow> None | b # _ \<Rightarrow> Some (unat (b AND 0x1F)))"

definition nal_idr :: nat where
  "nal_idr = 5"

definition nal_sps :: nat where
  "nal_sps = 7"

definition h264_is_keyframe :: "bytes \<Rightarrow> bool" where
  "h264_is_keyframe data = list_ex (\<lambda>u. nal_type u = Some nal_idr) (nal_units data)"

text \<open>The decoder configuration from the first SPS unit: the codec string
  \<open>avc1.PPCCLL\<close> (profile, constraint flags, level, two hex digits each).\<close>

record decoder_config =
  vdc_codec :: string

definition hex_digit :: "nat \<Rightarrow> char" where
  "hex_digit n = (if n < 10 then char_of (48 + n) else char_of (87 + n))"

definition hex2 :: "byte \<Rightarrow> string" where
  "hex2 b = [hex_digit (unat b div 16), hex_digit (unat b mod 16)]"

definition h264_parse_decoder_config :: "bytes \<Rightarrow> decoder_config option" where
  "h264_parse_decoder_config data =
     (case filter (\<lambda>u. nal_type u = Some nal_sps) (nal_units data) of
        [] \<Rightarrow> None
      | sps # _ \<Rightarrow>
          if length sps < 4 then None
          else Some \<lparr>vdc_codec = ''avc1.'' @ hex2 (sps ! 1) @ hex2 (sps ! 2) @ hex2 (sps ! 3)\<rparr>)"

text \<open>An encoder's output: each unit behind a three-byte start code.\<close>

definition annexb :: "bytes list \<Rightarrow> bytes" where
  "annexb units = concat (map (\<lambda>u. start_code @ u) units)"

lemma take3_not_start:
  assumes "\<not> sublist start_code (x # u)"
  shows "take 3 (x # u @ start_code @ rest) \<noteq> start_code"
proof (cases u)
  case Nil then show ?thesis by (simp add: start_code_def)
next
  case (Cons y u')
  show ?thesis
  proof (cases u')
    case Nil with Cons show ?thesis by (simp add: start_code_def)
  next
    case (Cons z u'')
    with \<open>u = y # u'\<close> have "take 3 (x # u @ start_code @ rest) = [x, y, z]" by simp
    moreover have "sublist [x, y, z] (x # u)" using Cons \<open>u = y # u'\<close> by (simp add: sublist_Cons_right)
    ultimately show ?thesis using assms by auto
  qed
qed

lemma chunks_unit:
  "\<not> sublist start_code u \<Longrightarrow> chunks acc (u @ start_code @ rest) = (acc @ u) # chunks [] rest"
proof (induction u arbitrary: acc)
  case Nil
  then show ?case by (simp add: start_code_def)
next
  case (Cons x u)
  have "\<not> sublist start_code u" using Cons.prems by (auto simp: sublist_Cons_right)
  with Cons.IH [of "acc @ [x]"] take3_not_start [OF Cons.prems, of rest]
  show ?case by simp
qed

lemma chunks_last:
  "\<not> sublist start_code u \<Longrightarrow> chunks acc u = [acc @ u]"
proof (induction u arbitrary: acc)
  case Nil
  then show ?case by simp
next
  case (Cons x u)
  have "take 3 (x # u) \<noteq> start_code"
    using Cons.prems by (metis prefix_imp_sublist take_is_prefix)
  moreover have "\<not> sublist start_code u" using Cons.prems by (auto simp: sublist_Cons_right)
  ultimately show ?case using Cons.IH [of "acc @ [x]"] by simp
qed

lemma chunks_annexb:
  "\<forall>u \<in> set (u0 # us). \<not> sublist start_code u \<Longrightarrow> chunks acc (u0 @ annexb us) = (acc @ u0) # us"
proof (induction us arbitrary: acc u0)
  case Nil
  then show ?case by (simp add: annexb_def chunks_last)
next
  case (Cons u1 us)
  have "chunks acc (u0 @ annexb (u1 # us)) = (acc @ u0) # chunks [] (u1 @ annexb us)"
    using chunks_unit [of u0 acc "u1 @ annexb us"] Cons.prems by (simp add: annexb_def)
  also have "chunks [] (u1 @ annexb us) = u1 # us"
    using Cons.IH [of u1 "[]"] Cons.prems by simp
  finally show ?case .
qed

text \<open>Splitting an encoder's stream gives back its units, when no unit contains a start
  code (what the emulation prevention bytes of H.264 guarantee).\<close>

lemma nal_units_annexb:
  assumes "\<forall>u \<in> set units. \<not> sublist start_code u"
  shows "nal_units (annexb units) = units"
proof (cases units)
  case Nil
  then show ?thesis by (simp add: nal_units_def annexb_def)
next
  case (Cons u us)
  have "annexb units = [] @ start_code @ (u @ annexb us)"
    by (simp add: Cons annexb_def)
  then have "chunks [] (annexb units) = [] # chunks [] (u @ annexb us)"
    using chunks_unit [of "[]" "[]" "u @ annexb us"] by (simp add: start_code_def)
  also have "chunks [] (u @ annexb us) = u # us"
    using chunks_annexb [of u us "[]"] assms Cons by simp
  finally show ?thesis by (simp add: nal_units_def Cons)
qed

lemma nal_type_bound: "nal_type u = Some t \<Longrightarrow> t < 32"
proof -
  assume "nal_type u = Some t"
  then obtain b rest where "u = b # rest" and t: "t = unat (b AND 0x1F)"
    by (auto simp: nal_type_def split: list.splits)
  have "unat (b AND 0x1F) \<le> unat (0x1F :: byte)"
    by (rule word_and_le1 [THEN word_le_nat_alt [THEN iffD1]])
  then show "t < 32" by (simp add: t)
qed

end
