(* ===== verification/DecodeImage.thy ===== *)
theory DecodeImage
  imports Complex_Main Prelude Time H264
begin

text \<open>
  The decode pipeline of
  src/packages/studio-base/src/panels/ThreeDeeRender/renderables/Images/decodeImage.ts:
  the dispatch of \<open>decodeRawImage\<close> on the encoding string, the compressed-image and
  compressed-video paths, and the blank placeholder \<open>emptyVideoFrame\<close>.
  The pixel decoders of \<open>@foxglove/den/image\<close> fill the caller's output buffer; the
  model records which decoder is called with which arguments. The browser's
  \<open>createImageBitmap\<close> and \<open>ImageData\<close> are modelled by the size of what they return
  and by the errors they raise on empty sizes. The video decoder of
  \<open>@foxglove/den/video\<close> is the parameter \<open>dec\<close>: what it returns for a chunk.
\<close>

subsection \<open>Raw images\<close>

text \<open>\<open>RosImage | RawImage\<close>: only the ROS image has \<open>is_bigendian\<close>.\<close>

record raw_image =
  ri_encoding :: string
  ri_width :: nat
  ri_height :: nat
  ri_is_bigendian :: "bool option"
  ri_data :: bytes

record raw_image_options =
  opt_min_value :: "rat option"
  opt_max_value :: "rat option"

datatype pixel_decoder =
    DecodeUYVY | DecodeYUYV | DecodeRGB8 | DecodeRGBA8 | DecodeBGRA8 | DecodeBGR8
  | DecodeFloat1c | DecodeBayerRGGB8 | DecodeBayerBGGR8 | DecodeBayerGBRG8 | DecodeBayerGRBG8
  | DecodeMono8 | DecodeMono16

text \<open>A call of a pixel decoder with the arguments it is given: data, width, height, and,
  for the decoders that take them, the endianness flag and the options.\<close>

datatype decoder_call =
  DecoderCall pixel_decoder bytes nat nat "bool option" "raw_image_options option"

datatype decode_error = UnsupportedEncoding string

text \<open>The \<open>switch\<close>: its cases in source order, the fall-through labels sharing a decoder.\<close>

definition encoding_cases :: "(string \<times> pixel_decoder) list" where
  "encoding_cases =
     [(''yuv422'', DecodeUYVY), (''uyvy'', DecodeUYVY),
      (''yuv422_yuy2'', DecodeYUYV), (''yuyv'', DecodeYUYV),
      (''rgb8'', DecodeRGB8), (''rgba8'', DecodeRGBA8), (''bgra8'', DecodeBGRA8),
      (''bgr8'', DecodeBGR8), (''8UC3'', DecodeBGR8),
      (''32FC1'', DecodeFloat1c),
      (''bayer_rggb8'', DecodeBayerRGGB8), (''bayer_bggr8'', DecodeBayerBGGR8),
      (''bayer_gbrg8'', DecodeBayerGBRG8), (''bayer_grbg8'', DecodeBayerGRBG8),
      (''mono8'', DecodeMono8), (''8UC1'', DecodeMono8),
      (''mono16'', DecodeMono16), (''16UC1'', DecodeMono16)]"

definition is_bigendian :: "raw_image \<Rightarrow> bool" where
  "is_bigendian img = (case ri_is_bigendian img of Some b \<Rightarrow> b | None \<Rightarrow> False)"

fun decoder_call_of :: "pixel_decoder \<Rightarrow> raw_image \<Rightarrow> raw_image_options \<Rightarrow> decoder_call" where
  "decoder_call_of DecodeFloat1c img opts =
     DecoderCall DecodeFloat1c (ri_data img) (ri_width img) (ri_height img) (Some (is_bigendian img)) None"
| "decoder_call_of DecodeMono16 img opts =
     DecoderCall DecodeMono16 (ri_data img) (ri_width img) (ri_height img) (Some (is_bigendian img)) (Some opts)"
| "decoder_call_of d img opts = DecoderCall d (ri_data img) (ri_width img) (ri_height img) None None"

definition decode_raw_image :: "raw_image \<Rightarrow> raw_image_options \<Rightarrow> decode_error + decoder_call" where
  "decode_raw_image img opts =
     (case map_of encoding_cases (ri_encoding img) of
        None \<Rightarrow> Inl (UnsupportedEncoding (ri_encoding img))
      | Some d \<Rightarrow> Inr (decoder_call_of d img opts))"

subsection \<open>Bitmaps\<close>

datatype bitmap_error = InvalidStateError | IndexSizeError | EncodingError

datatype bitmap_content = BlankImage | DecodedImage

record bitmap =
  bm_width :: nat
  bm_height :: nat
  bm_content :: bitmap_content

text \<open>
  \<open>createImageBitmap(source, {resizeWidth})\<close>: an empty source or a zero
  \<open>resizeWidth\<close> is an \<open>InvalidStateError\<close>; with only a width given the height keeps
  the aspect ratio, rounded up.
\<close>

definition create_image_bitmap ::
  "bitmap_content \<Rightarrow> nat \<times> nat \<Rightarrow> nat option \<Rightarrow> bitmap_error + bitmap" where
  "create_image_bitmap c sz rw =
     (let (w, h) = sz
      in if w = 0 \<or> h = 0 then Inl InvalidStateError
         else case rw of
                None \<Rightarrow> Inr \<lparr>bm_width = w, bm_height = h, bm_content = c\<rparr>
              | Some r \<Rightarrow>
                  if r = 0 then Inl InvalidStateError
                  else Inr \<lparr>bm_width = r, bm_height = (h * r + w - 1) div w, bm_content = c\<rparr>)"

text \<open>\<open>new ImageData(w, h)\<close> rejects an empty size.\<close>

definition image_data :: "nat \<times> nat \<Rightarrow> bitmap_error + (nat \<times> nat)" where
  "image_data sz = (if fst sz = 0 \<or> snd sz = 0 then Inl IndexSizeError else Inr sz)"

subsection \<open>Compressed images\<close>

record compressed_image =
  ci_format :: string
  ci_data :: bytes

text \<open>The browser's image decoder, a parameter: the intrinsic size of a blob of the given
  MIME type, or nothing when it cannot decode it.\<close>

type_synonym blob_decoder = "string \<Rightarrow> bytes \<Rightarrow> (nat \<times> nat) option"

definition decode_compressed_image_to_bitmap ::
  "blob_decoder \<Rightarrow> compressed_image \<Rightarrow> nat option \<Rightarrow> bitmap_error + bitmap" where
  "decode_compressed_image_to_bitmap blob img rw =
     (case blob (''image/'' @ ci_format img) (ci_data img) of
        None \<Rightarrow> Inl EncodingError
      | Some sz \<Rightarrow> create_image_bitmap DecodedImage sz rw)"

subsection \<open>Compressed video\<close>

record compressed_video =
  cv_timestamp :: time
  cv_format :: string
  cv_data :: bytes

definition is_video_keyframe :: "compressed_video \<Rightarrow> bool" where
  "is_video_keyframe f = (if cv_format f = ''h264'' then h264_is_keyframe (cv_data f) else False)"

definition get_video_decoder_config :: "compressed_video \<Rightarrow> decoder_config option" where
  "get_video_decoder_config f =
     (if cv_format f = ''h264'' then h264_parse_decoder_config (cv_data f) else None)"

text \<open>The state of the \<open>VideoPlayer\<close> the wrapper reads and changes: whether it is
  configured, its coded size if known, and the number of decoded frames not yet
  closed.\<close>

record video_player =
  vp_initialized :: bool
  vp_coded_size :: "(nat \<times> nat) option"
  vp_open_frames :: nat

datatype chunk_type = KeyChunk | DeltaChunk

text \<open>What the video decoder returns for a chunk: the size of the decoded frame, or none.\<close>

type_synonym video_decoder = "bytes \<Rightarrow> rat \<Rightarrow> chunk_type \<Rightarrow> (nat \<times> nat) option"

datatype video_effect =
    DecodeSubmitted rat chunk_type
  | BitmapCreated
  | FrameClosed

text \<open>\<open>emptyVideoFrame(videoPlayer?, resizeWidth?)\<close>: the coded size when the player
  knows it, else a square of side \<open>resizeWidth ?? 32\<close>.\<close>

definition empty_video_frame :: "video_player option \<Rightarrow> nat option \<Rightarrow> bitmap_error + bitmap" where
  "empty_video_frame vp rw =
     (let width = (case rw of Some w \<Rightarrow> w | None \<Rightarrow> 32);
          size = (case vp of
                    Some p \<Rightarrow> (case vp_coded_size p of Some s \<Rightarrow> s | None \<Rightarrow> (width, width))
                  | None \<Rightarrow> (width, width))
      in case image_data size of
           Inl e \<Rightarrow> Inl e
         | Inr sz \<Rightarrow> create_image_bitmap BlankImage sz rw)"

text \<open>BigInt division truncates toward zero.\<close>

definition bigint_div :: "int \<Rightarrow> int \<Rightarrow> int" where
  "bigint_div a b = sgn a * sgn b * (\<bar>a\<bar> div \<bar>b\<bar>)"

text \<open>\<open>toMicroSec(frameMsg.timestamp) - Number(firstMessageTime / 1000n)\<close>: the first
  term is the exact quotient (a JavaScript number, kept here as a rational), the second
  a truncated integer.\<close>

definition frame_timestamp_micros :: "compressed_video \<Rightarrow> int \<Rightarrow> rat" where
  "frame_timestamp_micros f first =
     of_int (to_nsec (cv_timestamp f)) / 1000 - of_int (bigint_div first 1000)"

definition decode_compressed_video_to_bitmap ::
  "video_decoder \<Rightarrow> compressed_video \<Rightarrow> video_player \<Rightarrow> int \<Rightarrow> nat option \<Rightarrow>
   (bitmap_error + bitmap) \<times> video_player \<times> video_effect list" where
  "decode_compressed_video_to_bitmap dec f vp first rw =
     (if \<not> vp_initialized vp then (empty_video_frame (Some vp) rw, vp, [])
      else
        let ts = frame_timestamp_micros f first;
            kind = (if is_video_keyframe f then KeyChunk else DeltaChunk)
        in case dec (cv_data f) ts kind of
             Some sz \<Rightarrow>
               (let vp1 = vp\<lparr>vp_open_frames := Suc (vp_open_frames vp)\<rparr>
                in case create_image_bitmap DecodedImage sz rw of
                     Inl e \<Rightarrow> (Inl e, vp1, [DecodeSubmitted ts kind])
                   | Inr bm \<Rightarrow> (Inr bm, vp1\<lparr>vp_open_frames := vp_open_frames vp1 - 1\<rparr>,
                                [DecodeSubmitted ts kind, BitmapCreated, FrameClosed]))
           | None \<Rightarrow> (empty_video_frame (Some vp) rw, vp, [DecodeSubmitted ts kind]))"

subsection \<open>Lemmas\<close>

definition supported_encodings :: "string set" where
  "supported_encodings =
     {''yuv422'', ''uyvy'', ''yuv422_yuy2'', ''yuyv'', ''rgb8'', ''rgba8'', ''bgra8'', ''bgr8'',
      ''8UC3'', ''32FC1'', ''bayer_rggb8'', ''bayer_bggr8'', ''bayer_gbrg8'', ''bayer_grbg8'',
      ''mono8'', ''8UC1'', ''mono16'', ''16UC1''}"

lemma encoding_cases_keys: "fst ` set encoding_cases = supported_encodings"
  by (simp add: encoding_cases_def supported_encodings_def)

lemma decode_raw_image_Inr:
  "decode_raw_image img opts = Inr c \<longleftrightarrow>
   (\<exists>d. map_of encoding_cases (ri_encoding img) = Some d \<and> c = decoder_call_of d img opts)"
  by (auto simp: decode_raw_image_def split: option.splits)

lemma decoder_call_of_opts:
  "d \<noteq> DecodeMono16 \<Longrightarrow> decoder_call_of d img o1 = decoder_call_of d img o2"
  by (cases d) simp_all

lemma decoder_call_of_endian:
  "d \<noteq> DecodeMono16 \<Longrightarrow> d \<noteq> DecodeFloat1c \<Longrightarrow>
   decoder_call_of d (img\<lparr>ri_is_bigendian := b1\<rparr>) opts = decoder_call_of d (img\<lparr>ri_is_bigendian := b2\<rparr>) opts"
  by (cases d) simp_all

lemma map_of_encoding_cases_Mono16:
  "map_of encoding_cases e = Some DecodeMono16 \<longleftrightarrow> e \<in> {''mono16'', ''16UC1''}"
  by (auto simp: encoding_cases_def)

lemma map_of_encoding_cases_Float1c:
  "map_of encoding_cases e = Some DecodeFloat1c \<longleftrightarrow> e = ''32FC1''"
  by (auto simp: encoding_cases_def)

lemma create_image_bitmap_Inr:
  "create_image_bitmap c (w, h) rw = Inr bm \<Longrightarrow>
   0 < w \<and> 0 < h \<and> bm_content bm = c \<and>
   (case rw of None \<Rightarrow> bm_width bm = w \<and> bm_height bm = h
    | Some r \<Rightarrow> 0 < r \<and> bm_width bm = r \<and> bm_height bm = (h * r + w - 1) div w)"
  by (auto simp: create_image_bitmap_def split: if_splits option.splits)

text \<open>Rounding the height up keeps the aspect ratio as closely as an integer allows.\<close>

lemma ceil_div_bounds:
  assumes "0 < (w::nat)"
  shows "h * r \<le> ((h * r + w - 1) div w) * w \<and> ((h * r + w - 1) div w) * w < h * r + w"
proof -
  let ?q = "(h * r + w - 1) div w"
  have "?q * w + (h * r + w - 1) mod w = h * r + w - 1" by simp
  moreover have "(h * r + w - 1) mod w < w" using assms by simp
  ultimately show ?thesis using assms by linarith
qed




lemma ceil_square: "0 < (w::nat) \<Longrightarrow> (w * w + w - 1) div w = w"
  by (rule div_nat_eqI) auto

lemma video_decode_uninit:
  "\<not> vp_initialized vp \<Longrightarrow>
   decode_compressed_video_to_bitmap dec f vp first rw = (empty_video_frame (Some vp) rw, vp, [])"
  by (simp add: decode_compressed_video_to_bitmap_def)


subsection \<open>Examples\<close>

definition ex_raw :: raw_image where
  "ex_raw = \<lparr>ri_encoding = ''mono16'', ri_width = 2, ri_height = 1,
             ri_is_bigendian = Some True, ri_data = [0, 1, 0, 2]\<rparr>"

definition ex_opts :: raw_image_options where
  "ex_opts = \<lparr>opt_min_value = Some 0, opt_max_value = Some 1000\<rparr>"

text \<open>An SPS unit (profile 66, level 30) followed by an IDR slice.\<close>

definition ex_units :: "bytes list" where
  "ex_units = [[0x67, 0x42, 0, 0x1e], [0x65, 0x88, 0x84]]"

definition ex_frame :: compressed_video where
  "ex_frame = \<lparr>cv_timestamp = \<lparr>sec = 1, nsec = 500\<rparr>, cv_format = ''h264'', cv_data = annexb ex_units\<rparr>"

definition ex_player :: video_player where
  "ex_player = \<lparr>vp_initialized = True, vp_coded_size = Some (640, 480), vp_open_frames = 0\<rparr>"

text \<open>A decoder that returns a 640 by 480 frame for every chunk.\<close>

definition ex_dec :: video_decoder where
  "ex_dec data ts k = Some (640, 480)"

lemma ex_units_no_start_code: "\<forall>u \<in> set ex_units. \<not> sublist start_code u"
  by (simp add: ex_units_def start_code_def sublist_Cons_right)

subsection \<open>Properties of the decode pipeline\<close>

text \<open>
  C13: \<open>decodeRawImage\<close> throws \<open>Unsupported encoding\<close>, naming the encoding,
  exactly for the encodings outside the eighteen labels of its \<open>switch\<close>; it decodes
  all the others.
\<close>

theorem decode_raw_image_supported:
  "decode_raw_image img opts = Inl e \<longleftrightarrow>
     ri_encoding img \<notin> supported_encodings \<and> e = UnsupportedEncoding (ri_encoding img)"
proof -
  have keys: "map_of encoding_cases (ri_encoding img) = None \<longleftrightarrow> ri_encoding img \<notin> supported_encodings"
    by (simp add: map_of_eq_None_iff encoding_cases_keys)
  then show ?thesis by (auto simp: decode_raw_image_def split: option.splits)
qed

theorem decode_raw_image_supported_witness:
  "decode_raw_image (ex_raw\<lparr>ri_encoding := ''jpeg''\<rparr>) ex_opts = Inl (UnsupportedEncoding ''jpeg'')"
  using decode_raw_image_supported [of "ex_raw\<lparr>ri_encoding := ''jpeg''\<rparr>" ex_opts]
  by (simp add: supported_encodings_def)

text \<open>The alias labels of the \<open>switch\<close> decode exactly as their partners.\<close>

lemma decode_raw_image_aliases:
  "decode_raw_image (img\<lparr>ri_encoding := ''yuv422''\<rparr>) opts = decode_raw_image (img\<lparr>ri_encoding := ''uyvy''\<rparr>) opts \<and>
   decode_raw_image (img\<lparr>ri_encoding := ''yuv422_yuy2''\<rparr>) opts = decode_raw_image (img\<lparr>ri_encoding := ''yuyv''\<rparr>) opts \<and>
   decode_raw_image (img\<lparr>ri_encoding := ''8UC3''\<rparr>) opts = decode_raw_image (img\<lparr>ri_encoding := ''bgr8''\<rparr>) opts \<and>
   decode_raw_image (img\<lparr>ri_encoding := ''8UC1''\<rparr>) opts = decode_raw_image (img\<lparr>ri_encoding := ''mono8''\<rparr>) opts \<and>
   decode_raw_image (img\<lparr>ri_encoding := ''16UC1''\<rparr>) opts = decode_raw_image (img\<lparr>ri_encoding := ''mono16''\<rparr>) opts"
  by (simp add: decode_raw_image_def encoding_cases_def is_bigendian_def)

text \<open>
  C15: the value range of the options reaches only the 16-bit mono decoder; the
  single-channel float decoder (\<open>32FC1\<close>) never sees it.
\<close>

theorem decode_raw_image_options:
  assumes "ri_encoding img \<notin> {''mono16'', ''16UC1''}"
  shows "decode_raw_image img o1 = decode_raw_image img o2"
proof (cases "map_of encoding_cases (ri_encoding img)")
  case (Some d)
  with assms map_of_encoding_cases_Mono16 have "d \<noteq> DecodeMono16" by auto
  with Some show ?thesis by (simp add: decode_raw_image_def decoder_call_of_opts)
qed (simp add: decode_raw_image_def)

theorem decode_raw_image_options_witness:
  "decode_raw_image (ex_raw\<lparr>ri_encoding := ''32FC1''\<rparr>) ex_opts =
   decode_raw_image (ex_raw\<lparr>ri_encoding := ''32FC1''\<rparr>) \<lparr>opt_min_value = None, opt_max_value = None\<rparr>"
  by (rule decode_raw_image_options) simp

text \<open>
  C16: the endianness flag reaches only the float and 16-bit decoders, and an image
  without the flag (a \<open>RawImage\<close>) decodes as little endian.
\<close>

theorem decode_raw_image_endianness:
  "(ri_encoding img \<notin> {''32FC1'', ''mono16'', ''16UC1''} \<longrightarrow>
     decode_raw_image (img\<lparr>ri_is_bigendian := b1\<rparr>) opts = decode_raw_image (img\<lparr>ri_is_bigendian := b2\<rparr>) opts) \<and>
   decode_raw_image (img\<lparr>ri_is_bigendian := None\<rparr>) opts =
     decode_raw_image (img\<lparr>ri_is_bigendian := Some False\<rparr>) opts"
proof
  show "ri_encoding img \<notin> {''32FC1'', ''mono16'', ''16UC1''} \<longrightarrow>
     decode_raw_image (img\<lparr>ri_is_bigendian := b1\<rparr>) opts = decode_raw_image (img\<lparr>ri_is_bigendian := b2\<rparr>) opts"
  proof
    assume enc: "ri_encoding img \<notin> {''32FC1'', ''mono16'', ''16UC1''}"
    show "decode_raw_image (img\<lparr>ri_is_bigendian := b1\<rparr>) opts = decode_raw_image (img\<lparr>ri_is_bigendian := b2\<rparr>) opts"
    proof (cases "map_of encoding_cases (ri_encoding img)")
      case (Some d)
      with enc map_of_encoding_cases_Mono16 map_of_encoding_cases_Float1c
      have "d \<noteq> DecodeMono16" "d \<noteq> DecodeFloat1c" by auto
      with Some show ?thesis by (simp add: decode_raw_image_def decoder_call_of_endian)
    qed (simp add: decode_raw_image_def)
  qed
  show "decode_raw_image (img\<lparr>ri_is_bigendian := None\<rparr>) opts =
     decode_raw_image (img\<lparr>ri_is_bigendian := Some False\<rparr>) opts"
  proof (cases "map_of encoding_cases (ri_encoding img)")
    case (Some d)
    then show ?thesis by (cases d) (simp_all add: decode_raw_image_def is_bigendian_def)
  qed (simp add: decode_raw_image_def)
qed

theorem decode_raw_image_endianness_witness:
  "decode_raw_image (ex_raw\<lparr>ri_encoding := ''rgb8'', ri_is_bigendian := Some True\<rparr>) ex_opts =
   decode_raw_image (ex_raw\<lparr>ri_encoding := ''rgb8'', ri_is_bigendian := Some False\<rparr>) ex_opts"
  using decode_raw_image_endianness [of "ex_raw\<lparr>ri_encoding := ''rgb8''\<rparr>" "Some True" ex_opts "Some False"]
  by simp

text \<open>
  C17: on an H.264 frame whose units carry no start code (what emulation prevention
  guarantees), \<open>isVideoKeyframe\<close> holds exactly when one of the units is an IDR slice;
  a frame of any other format is never a keyframe.
\<close>

theorem is_video_keyframe_annexb:
  assumes "\<forall>u \<in> set units. \<not> sublist start_code u"
  shows "is_video_keyframe \<lparr>cv_timestamp = t, cv_format = fmt, cv_data = annexb units\<rparr> \<longleftrightarrow>
         fmt = ''h264'' \<and> (\<exists>u \<in> set units. nal_type u = Some nal_idr)"
  using nal_units_annexb [OF assms]
  by (simp add: is_video_keyframe_def h264_is_keyframe_def list_ex_iff)

theorem is_video_keyframe_annexb_witness: "is_video_keyframe ex_frame"
proof -
  have "\<exists>u \<in> set ex_units. nal_type u = Some nal_idr"
    by (simp add: ex_units_def nal_type_def nal_idr_def)
  then show ?thesis
    using is_video_keyframe_annexb [OF ex_units_no_start_code, of "\<lparr>sec = 1, nsec = 500\<rparr>" "''h264''"]
    by (simp add: ex_frame_def)
qed

text \<open>C18: a decoder configuration is found only in an H.264 frame holding an SPS unit.\<close>

theorem get_video_decoder_config_sps:
  assumes "get_video_decoder_config f = Some cfg"
  shows "cv_format f = ''h264'' \<and> (\<exists>u \<in> set (nal_units (cv_data f)). nal_type u = Some nal_sps \<and> 4 \<le> length u)"
proof -
  from assms have fmt: "cv_format f = ''h264''"
    by (simp add: get_video_decoder_config_def split: if_splits)
  with assms obtain sps rest where
    sps: "filter (\<lambda>u. nal_type u = Some nal_sps) (nal_units (cv_data f)) = sps # rest"
    and len: "\<not> length sps < 4"
    by (auto simp: get_video_decoder_config_def h264_parse_decoder_config_def
        split: list.splits if_splits)
  have "sps \<in> set (filter (\<lambda>u. nal_type u = Some nal_sps) (nal_units (cv_data f)))"
    by (simp add: sps)
  then have "sps \<in> set (nal_units (cv_data f)) \<and> nal_type sps = Some nal_sps" by simp
  with len fmt show ?thesis by auto
qed

theorem get_video_decoder_config_sps_witness:
  "cv_format ex_frame = ''h264'' \<and>
   (\<exists>u \<in> set (nal_units (cv_data ex_frame)). nal_type u = Some nal_sps \<and> 4 \<le> length u)"
proof -
  have "get_video_decoder_config ex_frame = Some \<lparr>vdc_codec = ''avc1.42001e''\<rparr>"
    by code_simp
  from get_video_decoder_config_sps [OF this] show ?thesis .
qed

text \<open>
  C19: before the decoder is configured, decoding returns the blank placeholder and
  changes nothing; with no known coded size and a resize width \<open>w > 0\<close> it is a blank
  \<open>w \<times> w\<close> bitmap.
\<close>

theorem video_decode_before_keyframe:
  assumes "\<not> vp_initialized vp" and "vp_coded_size vp = None" and "0 < w"
  shows "decode_compressed_video_to_bitmap dec f vp first (Some w) =
           (Inr \<lparr>bm_width = w, bm_height = w, bm_content = BlankImage\<rparr>, vp, [])"
  using assms ceil_square [OF assms(3)]
  by (simp add: video_decode_uninit empty_video_frame_def image_data_def create_image_bitmap_def)

theorem video_decode_before_keyframe_witness:
  "decode_compressed_video_to_bitmap ex_dec ex_frame (ex_player\<lparr>vp_initialized := False, vp_coded_size := None\<rparr>) 0 (Some 32) =
     (Inr \<lparr>bm_width = 32, bm_height = 32, bm_content = BlankImage\<rparr>,
      ex_player\<lparr>vp_initialized := False, vp_coded_size := None\<rparr>, [])"
  by (rule video_decode_before_keyframe) simp_all



text \<open>
  C21: when the bitmap conversion of a decoded frame rejects (a zero resize width), the
  error propagates before \<open>videoFrame.close()\<close> runs and the frame stays open.
\<close>

theorem video_decode_leaks_on_reject:
  assumes "vp_initialized vp"
    and "dec (cv_data f) (frame_timestamp_micros f first)
           (if is_video_keyframe f then KeyChunk else DeltaChunk) = Some sz"
  shows "decode_compressed_video_to_bitmap dec f vp first (Some 0) =
           (Inl InvalidStateError, vp\<lparr>vp_open_frames := Suc (vp_open_frames vp)\<rparr>,
            [DecodeSubmitted (frame_timestamp_micros f first)
               (if is_video_keyframe f then KeyChunk else DeltaChunk)])"
  using assms
  by (simp add: decode_compressed_video_to_bitmap_def Let_def create_image_bitmap_def split: prod.split)

theorem video_decode_leaks_on_reject_witness:
  "vp_open_frames (fst (snd (decode_compressed_video_to_bitmap ex_dec ex_frame ex_player 0 (Some 0)))) = 1"
proof -
  have "vp_initialized ex_player" by (simp add: ex_player_def)
  moreover have "ex_dec (cv_data ex_frame) (frame_timestamp_micros ex_frame 0)
      (if is_video_keyframe ex_frame then KeyChunk else DeltaChunk) = Some (640, 480)"
    by (simp add: ex_dec_def)
  ultimately show ?thesis
    using video_decode_leaks_on_reject [of ex_player ex_dec ex_frame 0 "(640, 480)"]
    by (simp add: ex_player_def)
qed



text \<open>
  C23: a compressed image resized to a width \<open>r\<close> is \<open>r\<close> wide and keeps the aspect ratio
  of the decoded image, its height rounded up.
\<close>

theorem compressed_image_resize:
  assumes "decode_compressed_image_to_bitmap blob img (Some r) = Inr bm"
    and "blob (''image/'' @ ci_format img) (ci_data img) = Some (w, h)"
  shows "bm_width bm = r \<and> h * r \<le> bm_height bm * w \<and> bm_height bm * w < h * r + w"
proof -
  from assms have cb: "create_image_bitmap DecodedImage (w, h) (Some r) = Inr bm"
    by (simp add: decode_compressed_image_to_bitmap_def)
  from create_image_bitmap_Inr [OF cb] have "0 < w" and "bm_width bm = r"
    and "bm_height bm = (h * r + w - 1) div w" by auto
  with ceil_div_bounds [OF \<open>0 < w\<close>, of h r] show ?thesis by simp
qed

theorem compressed_image_resize_witness:
  "(480::nat) * 320 \<le> 240 * 640 \<and> (240::nat) * 640 < 480 * 320 + 640"
proof -
  have "decode_compressed_image_to_bitmap (\<lambda>mime data. Some (640, 480))
          \<lparr>ci_format = ''png'', ci_data = []\<rparr> (Some 320) =
        Inr \<lparr>bm_width = 320, bm_height = 240, bm_content = DecodedImage\<rparr>"
    by (simp add: decode_compressed_image_to_bitmap_def create_image_bitmap_def)
  from compressed_image_resize [OF this] show ?thesis by simp
qed

end
