(* ===== verification/NodePlayground.thy ===== *)
theory NodePlayground
  imports Prelude
begin

text \<open>
  The user-script panel of src/packages/studio-base/src/panels/NodePlayground/index.tsx:
  its state (the panel config, the layout's user nodes, the script back stack), the
  values it derives on each render (selected node, current script, saved flag, title),
  its handlers, and the layout effect that rebuilds the back stack when the selected
  node changes. A user event is one handler followed by a render commit, which re-runs
  the layout effect when its dependencies changed. React compares dependencies by
  reference: \<open>setUserNodes\<close> stores a new object for every key of its payload, which the
  model records by bumping that key's revision, so the selected node's reference is its
  id with its revision.
  The layout store's \<open>setUserNodes\<close> (not under src/) merges its payload into the
  user nodes, an undefined entry deleting the node; \<open>saveConfig\<close> merges a partial
  config. The template of a new script and the new node's uuid are parameters.
\<close>

record script =
  sc_file_path :: string
  sc_code :: string
  sc_read_only :: bool

record user_node =
  un_name :: string
  un_source_code :: string

record np_config =
  cfg_selected_node_id :: "string option"
  cfg_auto_format_on_save :: "bool option"
  cfg_additional_back_stack_items :: "script list option"

record np_state =
  np_cfg :: np_config
  np_user_nodes :: "string \<rightharpoonup> user_node"
  np_back_stack :: "script list"
  np_node_rev :: "string \<Rightarrow> nat"

type_synonym user_nodes_patch = "(string \<times> user_node option) list"

definition set_user_nodes :: "user_nodes_patch \<Rightarrow> np_state \<Rightarrow> np_state" where
  "set_user_nodes patch s =
     s\<lparr>np_user_nodes := fold (\<lambda>(k, v) m. m(k := v)) patch (np_user_nodes s),
       np_node_rev := fold (\<lambda>(k, v) r. r(k := Suc (r k))) patch (np_node_rev s)\<rparr>"

definition save_selected_node_id :: "string option \<Rightarrow> np_state \<Rightarrow> np_state" where
  "save_selected_node_id x s = s\<lparr>np_cfg := (np_cfg s)\<lparr>cfg_selected_node_id := x\<rparr>\<rparr>"

subsection \<open>Values derived on render\<close>

definition selected_node :: "np_state \<Rightarrow> user_node option" where
  "selected_node s = (case cfg_selected_node_id (np_cfg s) of None \<Rightarrow> None | Some i \<Rightarrow> np_user_nodes s i)"

text \<open>The reference of \<open>selectedNode\<close>, as the layout effect's dependency list sees it.\<close>

definition selected_node_ref :: "np_state \<Rightarrow> (string \<times> nat) option" where
  "selected_node_ref s =
     (case cfg_selected_node_id (np_cfg s) of
        None \<Rightarrow> None
      | Some i \<Rightarrow> (case np_user_nodes s i of None \<Rightarrow> None | Some n \<Rightarrow> Some (i, np_node_rev s i)))"

definition current_script :: "np_state \<Rightarrow> script option" where
  "current_script s = (if np_back_stack s = [] then None else Some (last (np_back_stack s)))"

definition is_current_script_selected_node :: "np_state \<Rightarrow> bool" where
  "is_current_script_selected_node s \<longleftrightarrow>
     (case (selected_node s, current_script s) of
        (Some n, Some c) \<Rightarrow> sc_file_path c = un_name n
      | _ \<Rightarrow> False)"

definition is_node_saved :: "np_state \<Rightarrow> bool" where
  "is_node_saved s \<longleftrightarrow>
     \<not> is_current_script_selected_node s \<or>
     (case (selected_node s, current_script s) of
        (Some n, Some c) \<Rightarrow> sc_code c = un_source_code n
      | _ \<Rightarrow> True)"

definition input_title :: "np_state \<Rightarrow> string" where
  "input_title s =
     (case current_script s of
        Some c \<Rightarrow> sc_file_path c @ (if sc_read_only c then '' (READONLY)'' else '''')
      | None \<Rightarrow> ''script name'')"

subsection \<open>Effects and handlers\<close>

definition node_script :: "user_node \<Rightarrow> script" where
  "node_script n = \<lparr>sc_file_path = un_name n, sc_code = un_source_code n, sc_read_only = False\<rparr>"

text \<open>The first \<open>useLayoutEffect\<close>: the selected node's script, then the test items.\<close>

definition sync_back_stack :: "np_state \<Rightarrow> np_state" where
  "sync_back_stack s =
     (case selected_node s of
        None \<Rightarrow> s
      | Some n \<Rightarrow> s\<lparr>np_back_stack := node_script n #
                     (case cfg_additional_back_stack_items (np_cfg s) of None \<Rightarrow> [] | Some xs \<Rightarrow> xs)\<rparr>)"

datatype settings_action =
    PerformNodeAction
  | Update string "string list" bool

definition action_handler :: "settings_action \<Rightarrow> np_state \<Rightarrow> np_state" where
  "action_handler a s =
     (case a of
        PerformNodeAction \<Rightarrow> s
      | Update input path v \<Rightarrow>
          if input = ''boolean'' \<and> 1 < length path \<and> path ! 1 = ''autoFormatOnSave''
          then s\<lparr>np_cfg := (np_cfg s)\<lparr>cfg_auto_format_on_save := Some v\<rparr>\<rparr>
          else s)"

definition save_current_node :: "np_state \<Rightarrow> np_state" where
  "save_current_node s =
     (case (cfg_selected_node_id (np_cfg s), selected_node s, current_script s) of
        (Some i, Some n, Some c) \<Rightarrow>
          if is_current_script_selected_node s
          then set_user_nodes [(i, Some (n\<lparr>un_source_code := sc_code c\<rparr>))] s
          else s
      | _ \<Rightarrow> s)"

text \<open>\<open>newNodeId.split("-")[0]\<close>.\<close>

definition uuid_prefix :: "string \<Rightarrow> string" where
  "uuid_prefix u = takeWhile (\<lambda>c. c \<noteq> CHR ''-'') u"

definition add_new_node :: "string \<Rightarrow> string option \<Rightarrow> string \<Rightarrow> np_state \<Rightarrow> np_state" where
  "add_new_node skeleton code new_id s =
     (let s1 = save_current_node s;
          source = (case code of Some c \<Rightarrow> c | None \<Rightarrow> skeleton);
          s2 = set_user_nodes [(new_id, Some \<lparr>un_name = uuid_prefix new_id, un_source_code = source\<rparr>)] s1
      in save_selected_node_id (Some new_id) s2)"

definition save_node :: "string option \<Rightarrow> np_state \<Rightarrow> np_state" where
  "save_node script s =
     (case (cfg_selected_node_id (np_cfg s), script, selected_node s) of
        (Some i, Some code, Some n) \<Rightarrow>
          if code = [] then s else set_user_nodes [(i, Some (n\<lparr>un_source_code := code\<rparr>))] s
      | _ \<Rightarrow> s)"

definition set_script_override :: "script \<Rightarrow> nat option \<Rightarrow> np_state \<Rightarrow> np_state" where
  "set_script_override sc max_depth s =
     (case max_depth of
        Some d \<Rightarrow>
          if 0 < d \<and> d \<le> length (np_back_stack s)
          then s\<lparr>np_back_stack := take (d - 1) (np_back_stack s) @ [sc]\<rparr>
          else s\<lparr>np_back_stack := np_back_stack s @ [sc]\<rparr>
      | None \<Rightarrow> s\<lparr>np_back_stack := np_back_stack s @ [sc]\<rparr>)"

definition go_back :: "np_state \<Rightarrow> np_state" where
  "go_back s = s\<lparr>np_back_stack := take (length (np_back_stack s) - 1) (np_back_stack s)\<rparr>"

definition set_script_code :: "string \<Rightarrow> np_state \<Rightarrow> np_state" where
  "set_script_code code s =
     (if np_back_stack s = [] then s
      else let sc = last (np_back_stack s)
           in if sc_read_only sc then s
              else s\<lparr>np_back_stack := butlast (np_back_stack s) @ [sc\<lparr>sc_code := code\<rparr>]\<rparr>)"

definition save_on_leave :: "np_state \<Rightarrow> np_state" where
  "save_on_leave s = (if is_node_saved s then s else save_current_node s)"

definition select_node :: "string \<Rightarrow> np_state \<Rightarrow> np_state" where
  "select_node i s = save_selected_node_id (Some i) (save_current_node s)"

text \<open>\<open>setUserNodes({...userNodes, [nodeId]: undefined})\<close>: re-setting the existing
  nodes to themselves changes nothing, so the payload that matters is the deletion.\<close>

definition delete_node :: "string \<Rightarrow> np_state \<Rightarrow> np_state" where
  "delete_node i s = save_selected_node_id None (set_user_nodes [(i, None)] s)"

text \<open>The title input's \<open>onChange\<close>: rename the selected node.\<close>

definition rename_node :: "string \<Rightarrow> np_state \<Rightarrow> np_state" where
  "rename_node name s =
     (case (cfg_selected_node_id (np_cfg s), selected_node s) of
        (Some i, Some n) \<Rightarrow> set_user_nodes [(i, Some (n\<lparr>un_name := name\<rparr>))] s
      | _ \<Rightarrow> s)"

text \<open>The bottom bar's save button: \<open>saveNode(currentScript?.code)\<close>.\<close>

definition bottom_bar_save :: "np_state \<Rightarrow> np_state" where
  "bottom_bar_save s = save_node (map_option sc_code (current_script s)) s"

subsection \<open>Events and renders\<close>

datatype np_event =
    SettingsAction settings_action
  | SelectNode string
  | DeleteNode string
  | AddNewNode "string option" string
  | EditorSave "string option"
  | BottomBarSave
  | SetScriptOverride script "nat option"
  | GoBack
  | SetScriptCode string
  | RenameNode string

fun handle_event :: "string \<Rightarrow> np_event \<Rightarrow> np_state \<Rightarrow> np_state" where
  "handle_event skel (SettingsAction a) s = action_handler a s"
| "handle_event skel (SelectNode i) s = select_node i s"
| "handle_event skel (DeleteNode i) s = delete_node i s"
| "handle_event skel (AddNewNode code i) s = add_new_node skel code i s"
| "handle_event skel (EditorSave code) s = save_node code s"
| "handle_event skel BottomBarSave s = bottom_bar_save s"
| "handle_event skel (SetScriptOverride sc d) s = set_script_override sc d s"
| "handle_event skel GoBack s = go_back s"
| "handle_event skel (SetScriptCode c) s = set_script_code c s"
| "handle_event skel (RenameNode n) s = rename_node n s"

text \<open>The commit after a handler: the layout effect runs again when the selected node or
  the additional back stack items changed.\<close>

definition commit_render :: "np_state \<Rightarrow> np_state \<Rightarrow> np_state" where
  "commit_render old new =
     (if selected_node_ref new \<noteq> selected_node_ref old \<or>
         cfg_additional_back_stack_items (np_cfg new) \<noteq> cfg_additional_back_stack_items (np_cfg old)
      then sync_back_stack new else new)"

definition np_step :: "string \<Rightarrow> np_state \<Rightarrow> np_event \<Rightarrow> np_state" where
  "np_step skel s e = commit_render s (handle_event skel e s)"

text \<open>Mounting runs the layout effect once on the initial state (empty back stack).\<close>

definition np_mount :: "np_config \<Rightarrow> (string \<rightharpoonup> user_node) \<Rightarrow> np_state" where
  "np_mount cfg nodes =
     sync_back_stack \<lparr>np_cfg = cfg, np_user_nodes = nodes, np_back_stack = [], np_node_rev = (\<lambda>_. 0)\<rparr>"

text \<open>Unmounting runs the cleanup effect, which calls the latest \<open>saveOnLeave\<close>.\<close>

definition np_unmount :: "np_state \<Rightarrow> np_state" where
  "np_unmount s = save_on_leave s"

text \<open>The layout store as \<open>userNodeSelector\<close> reads it: the selected layout, its data and
  their user nodes may each be undefined, and then the frozen empty map is used.\<close>

record layout_data =
  ld_user_nodes :: "(string \<rightharpoonup> user_node) option"

record layout =
  lay_data :: "layout_data option"

record layout_state =
  ls_selected_layout :: "layout option"

definition empty_user_nodes :: "string \<rightharpoonup> user_node" where
  "empty_user_nodes = Map.empty"

definition user_node_selector :: "layout_state \<Rightarrow> string \<rightharpoonup> user_node" where
  "user_node_selector st =
     (case Option.bind (Option.bind (ls_selected_layout st) lay_data) ld_user_nodes of
        None \<Rightarrow> empty_user_nodes
      | Some u \<Rightarrow> u)"

text \<open>The panel mounted over the current layout: the user nodes come from the selector.\<close>

definition np_mount_layout :: "np_config \<Rightarrow> layout_state \<Rightarrow> np_state" where
  "np_mount_layout cfg st = np_mount cfg (user_node_selector st)"

text \<open>The destructuring \<open>{ autoFormatOnSave = false } = config\<close>: a config without the
  field does not format on save.\<close>

definition auto_format_on_save :: "np_config \<Rightarrow> bool" where
  "auto_format_on_save cfg = (case cfg_auto_format_on_save cfg of None \<Rightarrow> False | Some b \<Rightarrow> b)"

text \<open>The panel's default config.\<close>

definition default_config :: np_config where
  "default_config =
     \<lparr>cfg_selected_node_id = None, cfg_auto_format_on_save = Some True, cfg_additional_back_stack_items = None\<rparr>"

text \<open>\<open>buildSettingsTree\<close>: one \<open>general\<close> node with the auto-format switch.\<close>

record settings_field =
  sf_input :: string
  sf_label :: string
  sf_value :: "bool option"

definition build_settings_tree :: "np_config \<Rightarrow> (string \<times> (string \<times> settings_field) list) list" where
  "build_settings_tree cfg =
     [(''general'', [(''autoFormatOnSave'',
        \<lparr>sf_input = ''boolean'', sf_label = ''Auto-format on save'', sf_value = cfg_auto_format_on_save cfg\<rparr>)])]"

text \<open>\<open>skeletonBody\<close>, the code of a new script, line by line (the template's escaped
  backquotes are plain backquotes in the string).\<close>

definition dquote :: string where
  "dquote = [CHR 0x22]"

definition apostrophe :: string where
  "apostrophe = [CHR 0x27]"

definition skeleton_lines :: "string list" where
  "skeleton_lines = [
      ''// The ./types module provides helper types for your Input events and messages.'',
      ''import { Input, Message } from '' @ dquote @ ''./types'' @ dquote @ '';'',
      [],
      ''// Your script can output well-known message types, any of your custom message types, or'',
      ''// complete custom message types.'',
      ''//'',
      ''// Use `Message` to access types from the schemas defined in your data source:'',
      ''// type Twist = Message<'' @ dquote @ ''geometry_msgs/Twist'' @ dquote @ ''>;'',
      ''//'',
      ''// Import from the @foxglove/schemas package to use foxglove schema types:'',
      ''// import { Pose, LocationFix } from '' @ dquote @ ''@foxglove/schemas'' @ dquote @ '';'',
      ''//'',
      ''// Conventionally, it'' @ apostrophe @ ''s common to make a _type alias_ for your script'' @ apostrophe @ ''s output type'',
      ''// and use that type name as the return type for your script function.'',
      ''// Here we'' @ apostrophe @ ''ve called the type `Output` but you can pick any type name.'',
      ''type Output = {'',
      ''  hello: string;'',
      ''};'',
      [],
      ''// These are the topics your script '' @ dquote @ ''subscribes'' @ dquote @ '' to. Studio will invoke your script function'',
      ''// when any message is received on one of these topics.'',
      ''export const inputs = ['' @ dquote @ ''/input/topic'' @ dquote @ ''];'',
      [],
      ''// Any output your script produces is '' @ dquote @ ''published'' @ dquote @ '' to this topic. Published messages are only visible within Studio, not to your original data source.'',
      ''export const output = '' @ dquote @ ''/studio_script/output_topic'' @ dquote @ '';'',
      [],
      ''// This function is called with messages from your input topics.'',
      ''// The first argument is an event with the topic, receive time, and message.'',
      ''// Use the `Input<...>` helper to get the correct event type for your input topic messages.'',
      ''export default function script(event: Input<'' @ dquote @ ''/input/topic'' @ dquote @ ''>): Output {'',
      ''  return {'',
      ''    hello: '' @ dquote @ ''world!'' @ dquote @ '','',
      ''  };'',
      ''};''
    ]"

fun join_lines :: "string list \<Rightarrow> string" where
  "join_lines [] = []"
| "join_lines [l] = l"
| "join_lines (l # ls) = l @ [CHR 0x0A] @ join_lines ls"

definition skeleton_body :: string where
  "skeleton_body = join_lines skeleton_lines"

subsection \<open>Lemmas\<close>

lemma np_unmount_saved: "is_node_saved s \<Longrightarrow> np_unmount s = s"
  by (simp add: np_unmount_def save_on_leave_def)

lemma set_user_nodes_single [simp]:
  "np_user_nodes (set_user_nodes [(k, v)] s) = (np_user_nodes s)(k := v)"
  "np_node_rev (set_user_nodes [(k, v)] s) = (np_node_rev s)(k := Suc (np_node_rev s k))"
  "np_cfg (set_user_nodes [(k, v)] s) = np_cfg s"
  "np_back_stack (set_user_nodes [(k, v)] s) = np_back_stack s"
  by (simp_all add: set_user_nodes_def)

lemma sync_back_stack_keeps [simp]:
  "np_user_nodes (sync_back_stack s) = np_user_nodes s"
  "np_cfg (sync_back_stack s) = np_cfg s"
  "np_node_rev (sync_back_stack s) = np_node_rev s"
  by (simp_all add: sync_back_stack_def split: option.splits)

lemma commit_render_keeps [simp]:
  "np_user_nodes (commit_render old new) = np_user_nodes new"
  "np_cfg (commit_render old new) = np_cfg new"
  by (simp_all add: commit_render_def)

lemma commit_render_changed:
  "selected_node_ref new \<noteq> selected_node_ref old \<Longrightarrow> commit_render old new = sync_back_stack new"
  by (simp add: commit_render_def)

lemma save_current_node_rev_mono: "np_node_rev s k \<le> np_node_rev (save_current_node s) k"
  by (simp add: save_current_node_def split: option.splits)

lemma current_script_Some:
  "current_script s = Some c \<longleftrightarrow> np_back_stack s \<noteq> [] \<and> last (np_back_stack s) = c"
  by (auto simp: current_script_def)

text \<open>Without a selected layout the panel mounts over no user nodes: whatever node
  its config selects, nothing is selected and the back stack stays empty.\<close>

lemma np_mount_no_layout:
  assumes "ls_selected_layout st = None"
  shows "selected_node (np_mount_layout cfg st) = None \<and> np_back_stack (np_mount_layout cfg st) = []"
  using assms
  by (simp add: np_mount_layout_def np_mount_def user_node_selector_def empty_user_nodes_def
      sync_back_stack_def selected_node_def split: option.splits)

text \<open>With the layout's user nodes defined, the panel opens the configured node's script
  below the additional back-stack items.\<close>

lemma np_mount_layout_opens:
  assumes "ls_selected_layout st = Some l" and "lay_data l = Some d" and "ld_user_nodes d = Some u"
    and "cfg_selected_node_id cfg = Some i" and "u i = Some n"
  shows "np_back_stack (np_mount_layout cfg st) =
           node_script n # (case cfg_additional_back_stack_items cfg of None \<Rightarrow> [] | Some xs \<Rightarrow> xs)"
  using assms
  by (simp add: np_mount_layout_def np_mount_def user_node_selector_def sync_back_stack_def
      selected_node_def)

lemmas np_state_simps = selected_node_def selected_node_ref_def current_script_def
  is_current_script_selected_node_def is_node_saved_def save_selected_node_id_def

subsection \<open>Examples\<close>

definition ex_node :: user_node where
  "ex_node = \<lparr>un_name = ''script_a'', un_source_code = ''orig''\<rparr>"

definition ex_utils :: script where
  "ex_utils = \<lparr>sc_file_path = ''/studio_script/utils.ts'', sc_code = ''export const x = 1;'',
               sc_read_only = True\<rparr>"

text \<open>The node \<open>n1\<close> is selected and its script edited, not yet saved.\<close>

definition ex_np :: np_state where
  "ex_np = \<lparr>np_cfg = \<lparr>cfg_selected_node_id = Some ''n1'', cfg_auto_format_on_save = None,
                      cfg_additional_back_stack_items = None\<rparr>,
            np_user_nodes = [''n1'' \<mapsto> ex_node],
            np_back_stack = [\<lparr>sc_file_path = ''script_a'', sc_code = ''edited'', sc_read_only = False\<rparr>],
            np_node_rev = (\<lambda>_. 0)\<rparr>"

subsection \<open>Properties of the panel\<close>

text \<open>
  C24: with a depth limit \<open>d > 0\<close>, \<open>setScriptOverride\<close> pushes the script on top and
  keeps at most \<open>d\<close> entries, dropping the ones above the first \<open>d - 1\<close>.
\<close>

theorem set_script_override_depth:
  assumes "0 < d"
  shows "length (np_back_stack (set_script_override sc (Some d) s)) = min (Suc (length (np_back_stack s))) d \<and>
         last (np_back_stack (set_script_override sc (Some d) s)) = sc \<and>
         butlast (np_back_stack (set_script_override sc (Some d) s)) = take (d - 1) (np_back_stack s)"
  using assms by (cases "d \<le> length (np_back_stack s)") (auto simp: set_script_override_def min_def)

theorem set_script_override_depth_witness:
  "length (np_back_stack (set_script_override ex_utils (Some 1) ex_np)) = 1"
  using set_script_override_depth [of 1 ex_utils ex_np] by (simp add: ex_np_def)

text \<open>
  C25: \<open>setScriptCode\<close> changes only the top script, and only its code; a read-only top
  script is left as it is.
\<close>

theorem set_script_code_top:
  "length (np_back_stack (set_script_code c s)) = length (np_back_stack s) \<and>
   butlast (np_back_stack (set_script_code c s)) = butlast (np_back_stack s) \<and>
   (np_back_stack s \<noteq> [] \<longrightarrow>
      last (np_back_stack (set_script_code c s)) =
        (if sc_read_only (last (np_back_stack s)) then last (np_back_stack s)
         else (last (np_back_stack s))\<lparr>sc_code := c\<rparr>))"
  by (simp add: set_script_code_def Let_def)

theorem set_script_code_top_witness:
  "last (np_back_stack (set_script_code ''x'' (set_script_override ex_utils None ex_np))) = ex_utils"
  using set_script_code_top [of "''x''" "set_script_override ex_utils None ex_np"]
  by (simp add: set_script_override_def ex_utils_def)

text \<open>
  C26: saving the current node (when the current script is the selected node) makes the
  node saved, keeps the current script the selected node, and leaves the back stack.
\<close>

theorem save_current_node_saves:
  assumes "is_current_script_selected_node s"
  shows "is_current_script_selected_node (save_current_node s) \<and> is_node_saved (save_current_node s) \<and>
         np_back_stack (save_current_node s) = np_back_stack s"
proof -
  from assms obtain i n c where i: "cfg_selected_node_id (np_cfg s) = Some i"
    and n: "np_user_nodes s i = Some n" and c: "current_script s = Some c"
    and path: "sc_file_path c = un_name n"
    by (auto simp: is_current_script_selected_node_def selected_node_def
        split: option.splits prod.splits)
  then have "save_current_node s = set_user_nodes [(i, Some (n\<lparr>un_source_code := sc_code c\<rparr>))] s"
    using assms by (simp add: save_current_node_def selected_node_def)
  with i n c path show ?thesis by (auto simp: np_state_simps split: if_splits)
qed

theorem save_current_node_saves_witness:
  "is_node_saved (save_current_node ex_np)"
proof -
  have "is_current_script_selected_node ex_np"
    by (simp add: ex_np_def ex_node_def np_state_simps)
  from save_current_node_saves [OF this] show ?thesis by simp
qed

text \<open>
  C27: selecting another script first saves the edits of the current one: the node
  that was selected holds the current script's code, and the new id is selected.
\<close>

theorem select_node_keeps_edits:
  assumes "cfg_selected_node_id (np_cfg s) = Some i" and "np_user_nodes s i = Some n"
    and "current_script s = Some c" and "sc_file_path c = un_name n"
  shows "np_user_nodes (np_step skel s (SelectNode j)) i = Some (n\<lparr>un_source_code := sc_code c\<rparr>) \<and>
         cfg_selected_node_id (np_cfg (np_step skel s (SelectNode j))) = Some j"
proof -
  have "is_current_script_selected_node s"
    using assms by (simp add: is_current_script_selected_node_def selected_node_def)
  then have "save_current_node s = set_user_nodes [(i, Some (n\<lparr>un_source_code := sc_code c\<rparr>))] s"
    using assms by (simp add: save_current_node_def selected_node_def)
  then show ?thesis
    by (simp add: np_step_def select_node_def save_selected_node_id_def)
qed

theorem select_node_keeps_edits_witness:
  "np_user_nodes (np_step [] ex_np (SelectNode ''n2'')) ''n1'' =
     Some \<lparr>un_name = ''script_a'', un_source_code = ''edited''\<rparr>"
  using select_node_keeps_edits [of ex_np "''n1''" ex_node
      "\<lparr>sc_file_path = ''script_a'', sc_code = ''edited'', sc_read_only = False\<rparr>" "[]" "''n2''"]
  by (simp add: ex_np_def ex_node_def current_script_def)

text \<open>
  C28: renaming the selected node stores a new node object, so the layout effect
  rebuilds the back stack from the stored source: the script's unsaved edits are
  discarded.
\<close>

theorem rename_discards_edits:
  assumes "cfg_selected_node_id (np_cfg s) = Some i" and "np_user_nodes s i = Some n"
    and "cfg_additional_back_stack_items (np_cfg s) = None"
  shows "np_back_stack (np_step skel s (RenameNode nm)) =
           [\<lparr>sc_file_path = nm, sc_code = un_source_code n, sc_read_only = False\<rparr>] \<and>
         np_user_nodes (np_step skel s (RenameNode nm)) i = Some (n\<lparr>un_name := nm\<rparr>)"
proof -
  have r: "rename_node nm s = set_user_nodes [(i, Some (n\<lparr>un_name := nm\<rparr>))] s"
    using assms by (simp add: rename_node_def selected_node_def)
  have "selected_node_ref (rename_node nm s) \<noteq> selected_node_ref s"
    using assms by (simp add: r selected_node_ref_def)
  then have "np_step skel s (RenameNode nm) = sync_back_stack (rename_node nm s)"
    by (simp add: np_step_def commit_render_changed)
  with assms show ?thesis
    by (simp add: r sync_back_stack_def selected_node_def node_script_def)
qed

theorem rename_discards_edits_witness:
  "np_back_stack (np_step [] ex_np (RenameNode ''script_b'')) =
     [\<lparr>sc_file_path = ''script_b'', sc_code = ''orig'', sc_read_only = False\<rparr>] \<and>
   \<not> is_node_saved ex_np"
proof -
  have "\<not> is_node_saved ex_np"
    by (simp add: ex_np_def ex_node_def np_state_simps)
  moreover have "np_back_stack (np_step [] ex_np (RenameNode ''script_b'')) =
     [\<lparr>sc_file_path = ''script_b'', sc_code = ''orig'', sc_read_only = False\<rparr>]"
    using rename_discards_edits [of ex_np "''n1''" ex_node "[]" "''script_b''"]
    by (simp add: ex_np_def ex_node_def)
  ultimately show ?thesis by simp
qed

text \<open>
  C29: the bottom bar's save writes the current script's code into the selected node
  whatever the current script is, also when it is a read-only utility file reached by
  an override.
\<close>

theorem bottom_bar_save_overwrites:
  assumes "cfg_selected_node_id (np_cfg s) = Some i" and "np_user_nodes s i = Some n"
    and "current_script s = Some c" and "sc_code c \<noteq> []"
  shows "np_user_nodes (bottom_bar_save s) i = Some (n\<lparr>un_source_code := sc_code c\<rparr>)"
  using assms by (simp add: bottom_bar_save_def save_node_def selected_node_def)

theorem bottom_bar_save_overwrites_witness:
  "np_user_nodes (bottom_bar_save (set_script_override ex_utils None ex_np)) ''n1'' =
     Some \<lparr>un_name = ''script_a'', un_source_code = ''export const x = 1;''\<rparr>"
  using bottom_bar_save_overwrites [of "set_script_override ex_utils None ex_np" "''n1''" ex_node ex_utils]
  by (simp add: set_script_override_def ex_np_def ex_node_def ex_utils_def current_script_def)

text \<open>
  C30: adding a script selects a new node named by the first group of its uuid, holding
  the given code or the template, and the back stack is rebuilt for it.
\<close>

theorem add_new_node_selects:
  "cfg_selected_node_id (np_cfg (np_step skel s (AddNewNode code u))) = Some u \<and>
   np_user_nodes (np_step skel s (AddNewNode code u)) u =
     Some \<lparr>un_name = uuid_prefix u, un_source_code = (case code of Some c \<Rightarrow> c | None \<Rightarrow> skel)\<rparr> \<and>
   np_back_stack (np_step skel s (AddNewNode code u)) =
     \<lparr>sc_file_path = uuid_prefix u, sc_code = (case code of Some c \<Rightarrow> c | None \<Rightarrow> skel),
      sc_read_only = False\<rparr> #
     (case cfg_additional_back_stack_items (np_cfg s) of None \<Rightarrow> [] | Some xs \<Rightarrow> xs)"
proof -
  let ?s1 = "save_current_node s"
  let ?n = "\<lparr>un_name = uuid_prefix u, un_source_code = (case code of Some c \<Rightarrow> c | None \<Rightarrow> skel)\<rparr>"
  have a: "add_new_node skel code u s = save_selected_node_id (Some u) (set_user_nodes [(u, Some ?n)] ?s1)"
    by (simp add: add_new_node_def)
  have cfg1: "np_cfg ?s1 = np_cfg s"
    by (simp add: save_current_node_def split: option.splits)
  have "np_node_rev s u < Suc (np_node_rev ?s1 u)"
    using save_current_node_rev_mono [of s u] by simp
  then have "selected_node_ref (add_new_node skel code u s) \<noteq> selected_node_ref s"
    by (auto simp: a selected_node_ref_def save_selected_node_id_def split: option.splits)
  then have "np_step skel s (AddNewNode code u) = sync_back_stack (add_new_node skel code u s)"
    by (simp add: np_step_def commit_render_changed)
  then show ?thesis
    by (simp add: a cfg1 sync_back_stack_def selected_node_def save_selected_node_id_def node_script_def)
qed

text \<open>
  Deleting a script removes the node and clears the selection; the layout effect
  has no node to show, so the back stack, with the deleted script on top, stays.
\<close>

lemma delete_node_clears:
  "np_user_nodes (np_step skel s (DeleteNode i)) i = None \<and>
   cfg_selected_node_id (np_cfg (np_step skel s (DeleteNode i))) = None \<and>
   np_back_stack (np_step skel s (DeleteNode i)) = np_back_stack s"
  by (simp add: np_step_def commit_render_def delete_node_def save_selected_node_id_def
      sync_back_stack_def selected_node_def)

end
