(* ===== verification/MapTileSets.thy ===== *)
theory MapTileSets
  imports Complex_Main Prelude
begin

text \<open>
  The map-tile layers of the 3D panel
  (src/packages/studio-base/src/panels/ThreeDeeRender/renderables/MapTileSets.ts): a
  scene extension that keeps one renderable (holding a line list) per map-tile layer of
  the panel's config. The state is the config's layers (\<open>renderer.config.layers\<close>),
  the extension's renderables, its scene children and the calls it makes on the
  renderer; the handlers are \<open>mts_step\<close>, and \<open>mts_reachable\<close> is the set of states the
  extension reaches from its constructor.
\<close>

type_synonym vec3 = "rat \<times> rat \<times> rat"

text \<open>A layer of the config as stored: every field of \<open>Partial<LayerSettingsMapTileSet>\<close> is optional.\<close>

record layer_config =
  lc_layer_id :: "string option"
  lc_order :: "int option"
  lc_label :: "string option"
  lc_visible :: "bool option"
  lc_frame_locked :: "bool option"
  lc_instance_id :: "string option"
  lc_tile_server_url :: "string option"
  lc_color :: "string option"
  lc_outline :: "bool option"
  lc_position :: "vec3 option"
  lc_rotation :: "vec3 option"

text \<open>\<open>LayerSettingsMapTileSet\<close>: the settings after the defaults are spread under a layer.\<close>

record tile_settings =
  ts_visible :: bool
  ts_frame_locked :: bool
  ts_label :: string
  ts_instance_id :: string
  ts_layer_id :: string
  ts_tile_server_url :: "string option"
  ts_color :: string
  ts_outline :: bool
  ts_order :: "int option"
  ts_position :: "vec3 option"
  ts_rotation :: "vec3 option"

definition layer_id :: string where
  "layer_id = ''sviz.MapTileSet''"

definition default_color :: string where
  "default_color = ''#248eff''"

definition default_settings :: tile_settings where
  "default_settings =
     \<lparr>ts_visible = True, ts_frame_locked = True, ts_label = ''Map Tiles'', ts_instance_id = ''invalid'',
      ts_layer_id = layer_id, ts_tile_server_url = None, ts_color = default_color, ts_outline = True,
      ts_order = None, ts_position = None, ts_rotation = None\<rparr>"

text \<open>\<open>{ ...DEFAULT_SETTINGS, ...settings }\<close>: a field the layer has overrides the default.\<close>

definition merge_settings :: "tile_settings \<Rightarrow> layer_config \<Rightarrow> tile_settings" where
  "merge_settings d lc =
     \<lparr>ts_visible = case_option (ts_visible d) id (lc_visible lc),
      ts_frame_locked = case_option (ts_frame_locked d) id (lc_frame_locked lc),
      ts_label = case_option (ts_label d) id (lc_label lc),
      ts_instance_id = case_option (ts_instance_id d) id (lc_instance_id lc),
      ts_layer_id = case_option (ts_layer_id d) id (lc_layer_id lc),
      ts_tile_server_url = (case lc_tile_server_url lc of None \<Rightarrow> ts_tile_server_url d | Some u \<Rightarrow> Some u),
      ts_color = case_option (ts_color d) id (lc_color lc),
      ts_outline = case_option (ts_outline d) id (lc_outline lc),
      ts_order = (case lc_order lc of None \<Rightarrow> ts_order d | Some n \<Rightarrow> Some n),
      ts_position = (case lc_position lc of None \<Rightarrow> ts_position d | Some p \<Rightarrow> Some p),
      ts_rotation = (case lc_rotation lc of None \<Rightarrow> ts_rotation d | Some r \<Rightarrow> Some r)\<rparr>"


text \<open>
  A line-list marker (library type \<open>Marker\<close>: its colour and points). \<open>createMarker\<close>
  parses the colour into a local object and ends at a FIXME without a \<open>return\<close>: it
  returns \<open>undefined\<close> for every settings object.
\<close>

record marker =
  mk_color :: string
  mk_points :: "vec3 list"

definition create_marker :: "tile_settings \<Rightarrow> marker option" where
  "create_marker settings = None"

text \<open>The library's line list keeps the marker it was built or last updated with.\<close>

record line_list =
  ll_id :: string
  ll_marker :: "marker option"

datatype pose = MakePose | XyzRpyToPose "vec3 option" "vec3 option"

record tile_renderable =
  rd_settings :: tile_settings
  rd_line_list :: line_list
  rd_pose :: pose
  rd_frame_id :: string
  rd_settings_path :: "string list"

text \<open>Calls on the renderer and on library objects that the model records but does not interpret.\<close>

datatype mts_effect =
    CustomLayerActionAdded
  | TransformListenerAdded
  | TransformListenerRemoved
  | SettingsTreeUpdated
  | CustomLayersCountUpdated
  | LineListDisposed string

record mts_state =
  mts_layers :: "(string, layer_config) js_map"
  mts_renderables :: "(string, tile_renderable) js_map"
  mts_children :: "string list"
  mts_frames :: "string list"
  mts_effects :: "mts_effect list"

subsection \<open>Creating, updating and deleting renderables\<close>

text \<open>\<open>_createRenderable\<close>: a line list with id \<open>instanceId:LINE_LIST\<close>, the first frame of
  the transform tree, added to the scene and to the renderables.\<close>

definition create_renderable :: "string \<Rightarrow> tile_settings \<Rightarrow> mts_state \<Rightarrow> tile_renderable \<times> mts_state" where
  "create_renderable instance_id settings s =
     (let marker = create_marker settings;
          line_list = \<lparr>ll_id = instance_id @ '':LINE_LIST'', ll_marker = marker\<rparr>;
          r = \<lparr>rd_settings = settings, rd_line_list = line_list, rd_pose = MakePose,
               rd_frame_id = (case mts_frames s of [] \<Rightarrow> [] | f # _ \<Rightarrow> f),
               rd_settings_path = [''layers'', instance_id]\<rparr>
      in (r, s\<lparr>mts_children := mts_children s @ [instance_id],
               mts_renderables := js_set (mts_renderables s) instance_id r\<rparr>))"

text \<open>
  \<open>markersEqual\<close> also compares \<open>size\<close>, \<open>divisions\<close>, \<open>frameId\<close> and \<open>lineWidth\<close>, fields
  that \<open>LayerSettingsMapTileSet\<close> does not have: they are \<open>undefined\<close> on both sides, so
  only the colour decides. Positions and rotations are compared exactly.
\<close>

definition markers_equal :: "tile_settings \<Rightarrow> tile_settings \<Rightarrow> bool" where
  "markers_equal new prev \<longleftrightarrow> ts_color new = ts_color prev"

text \<open>The part of \<open>_updateMapTileSet\<close> that refreshes an existing renderable: new
  settings, a new marker when the marker settings changed, a new pose when the position
  or the rotation changed.\<close>

definition refresh_renderable :: "tile_settings \<Rightarrow> tile_renderable \<Rightarrow> tile_renderable" where
  "refresh_renderable new_settings r =
     (let prev = rd_settings r;
          r1 = r\<lparr>rd_settings := new_settings\<rparr>;
          r2 = (if markers_equal new_settings prev then r1
                else r1\<lparr>rd_line_list := (rd_line_list r1)\<lparr>ll_marker := create_marker new_settings\<rparr>\<rparr>)
      in if ts_position new_settings \<noteq> ts_position prev \<or> ts_rotation new_settings \<noteq> ts_rotation prev
         then r2\<lparr>rd_pose := XyzRpyToPose (ts_position new_settings) (ts_rotation new_settings)\<rparr>
         else r2)"

text \<open>\<open>_updateMapTileSet\<close>: \<open>undefined\<close> settings delete the renderable (disposing its
  line list); otherwise the renderable is created if missing, then refreshed.\<close>

definition update_map_tile_set :: "string \<Rightarrow> layer_config option \<Rightarrow> mts_state \<Rightarrow> mts_state" where
  "update_map_tile_set instance_id settings s =
     (case settings of
        None \<Rightarrow>
          (case js_get (mts_renderables s) instance_id of
             None \<Rightarrow> s
           | Some r \<Rightarrow> s\<lparr>mts_effects := mts_effects s @ [LineListDisposed (ll_id (rd_line_list r))],
                         mts_children := remove1 instance_id (mts_children s),
                         mts_renderables := js_delete (mts_renderables s) instance_id\<rparr>)
      | Some lc \<Rightarrow>
          (let new_settings = merge_settings default_settings lc;
               (r, s1) = (case js_get (mts_renderables s) instance_id of
                            Some r \<Rightarrow> (r, s)
                          | None \<Rightarrow> create_renderable instance_id new_settings s)
           in s1\<lparr>mts_renderables := js_set (mts_renderables s1) instance_id (refresh_renderable new_settings r)\<rparr>))"



subsection \<open>The settings tree and its actions\<close>










subsection \<open>Adding a layer\<close>





text \<open>\<open>dispose\<close>: the listener is removed, then the scene extension disposes every
  renderable (each disposing its line list) and forgets them.\<close>

definition dispose_map_tile_sets :: "mts_state \<Rightarrow> mts_state" where
  "dispose_map_tile_sets s =
     s\<lparr>mts_effects := mts_effects s @ [TransformListenerRemoved] @
                       map (\<lambda>p. LineListDisposed (ll_id (rd_line_list (snd p)))) (mts_renderables s),
       mts_children := [], mts_renderables := []\<rparr>"






subsection \<open>Lemmas\<close>


lemma update_map_tile_set_layers [simp]:
  "mts_layers (update_map_tile_set i so s) = mts_layers s"
  "mts_frames (update_map_tile_set i so s) = mts_frames s"
  by (auto simp: update_map_tile_set_def create_renderable_def Let_def split: option.splits prod.splits)






















subsection \<open>Example\<close>



subsection \<open>Properties of the map-tile layers\<close>






end
