(* ===== verification/Uptime.thy ===== *)
theory Uptime
  imports Time
begin

text \<open>
  The uptime label of the app bar (src/packages/studio-base/src/components/AppBar/Uptime.tsx):
  an effect writes \<open>(duration)\<close> into a DOM node from the player's start and current
  time. The duration is formatted by \<open>formatDurationCustom\<close>, which picks a template
  from moment's hour and minute components and hands it to moment-duration-format.
  Both libraries are modelled from their documented behaviour: a component is the
  truncated count of that unit within the next larger one, with the sign of the
  duration; the largest token of a template absorbs the larger units; numbers are
  printed with thousands separators.
\<close>

subsection \<open>Library: moment durations and moment-duration-format\<close>

definition dur_sign :: "int \<Rightarrow> int" where
  "dur_sign ms = (if ms < 0 then -1 else 1)"

text \<open>\<open>duration.hours()\<close> and \<open>duration.minutes()\<close>.\<close>

definition dur_hours :: "int \<Rightarrow> int" where
  "dur_hours ms = dur_sign ms * ((\<bar>ms\<bar> div 3600000) mod 24)"

definition dur_minutes :: "int \<Rightarrow> int" where
  "dur_minutes ms = dur_sign ms * ((\<bar>ms\<bar> div 60000) mod 60)"

fun digits :: "nat \<Rightarrow> string" where
  "digits n = (if n < 10 then [char_of (48 + n)] else digits (n div 10) @ [char_of (48 + n mod 10)])"

fun group_rev :: "string \<Rightarrow> string" where
  "group_rev (a # b # c # d # rest) = a # b # c # CHR '','' # group_rev (d # rest)"
| "group_rev xs = xs"

text \<open>A count as printed with grouping: \<open>86400\<close> is \<open>86,400\<close>.\<close>

definition fmt_count :: "nat \<Rightarrow> string" where
  "fmt_count n = rev (group_rev (rev (digits n)))"

text \<open>\<open>duration.format(template)\<close> for the three templates the component builds, on a
  whole number of seconds; other templates are not modelled.\<close>

definition duration_format :: "string \<Rightarrow> int \<Rightarrow> string" where
  "duration_format tmpl ms =
     (let t = nat (\<bar>ms\<bar> div 1000);
          sign = (if ms < 0 then ''-'' else [])
      in if tmpl = ''h[h] m[m] s[s]'' then
           sign @ fmt_count (t div 3600) @ ''h '' @ fmt_count (t div 60 mod 60) @ ''m '' @ fmt_count (t mod 60) @ ''s''
         else if tmpl = ''m[m] s[s]'' then sign @ fmt_count (t div 60) @ ''m '' @ fmt_count (t mod 60) @ ''s''
         else if tmpl = ''s[s]'' then sign @ fmt_count t @ ''s''
         else tmpl)"

subsection \<open>The component\<close>

text \<open>The template: hours only when the hour component is positive, minutes when the
  hour or the minute component is, seconds always; trailing blanks trimmed.\<close>

definition format_template :: "int \<Rightarrow> string" where
  "format_template ms =
     (let f1 = (if 0 < dur_hours ms then ''h[h] '' else []);
          f2 = f1 @ (if 0 < dur_hours ms \<or> 0 < dur_minutes ms then ''m[m] '' else [])
      in f2 @ ''s[s]'')"

definition format_duration_custom :: "int \<Rightarrow> string" where
  "format_duration_custom ms = duration_format (format_template ms) ms"

text \<open>The effect: nothing without the DOM node, an empty text without a start time,
  otherwise the whole seconds elapsed (a missing current time counts as zero).\<close>

definition uptime_effect :: "bool \<Rightarrow> time option \<Rightarrow> time option \<Rightarrow> string \<Rightarrow> string" where
  "uptime_effect mounted start current text =
     (if \<not> mounted then text
      else case start of
             None \<Rightarrow> []
           | Some st \<Rightarrow>
               (let uptime_sec = (case current of None \<Rightarrow> 0 | Some c \<Rightarrow> sec c) - sec st
                in ''('' @ format_duration_custom (uptime_sec * 1000) @ '')''))"

text \<open>The two selectors of the message pipeline: \<open>activeData\<close> is undefined before a
  player has loaded a source.\<close>

record active_data =
  ad_start_time :: time
  ad_current_time :: time

record player_state =
  ps_active_data :: "active_data option"

definition select_start_time :: "player_state \<Rightarrow> time option" where
  "select_start_time ps = map_option ad_start_time (ps_active_data ps)"

definition select_current_time :: "player_state \<Rightarrow> time option" where
  "select_current_time ps = map_option ad_current_time (ps_active_data ps)"

text \<open>The component: the effect runs on the two selected times.\<close>

definition uptime :: "bool \<Rightarrow> player_state \<Rightarrow> string \<Rightarrow> string" where
  "uptime mounted ps text = uptime_effect mounted (select_start_time ps) (select_current_time ps) text"

subsection \<open>Lemmas\<close>

text \<open>Before a player has active data the mounted label is cleared.\<close>

lemma uptime_no_player:
  "ps_active_data ps = None \<Longrightarrow> uptime True ps text = []"
  by (simp add: uptime_def select_start_time_def uptime_effect_def)

text \<open>With active data the label is the formatted difference of its two times.\<close>

lemma uptime_active:
  "ps_active_data ps = Some a \<Longrightarrow>
   uptime True ps text = ''('' @ format_duration_custom ((sec (ad_current_time a) - sec (ad_start_time a)) * 1000) @ '')''"
  by (simp add: uptime_def select_start_time_def select_current_time_def uptime_effect_def)

lemma dur_components_day:
  assumes "0 < d" and "0 \<le> x" and "x < 60"
  shows "dur_hours ((86400 * d + x) * 1000) = 0 \<and> dur_minutes ((86400 * d + x) * 1000) = 0"
proof -
  have h: "(86400 * d + x) * 1000 div 3600000 = 24 * d"
  proof -
    have "(86400 * d + x) * 1000 = x * 1000 + (24 * d) * 3600000" by simp
    moreover have "x * 1000 div 3600000 = 0" using assms by (simp add: div_pos_pos_trivial)
    ultimately show ?thesis by simp
  qed
  have m: "(86400 * d + x) * 1000 div 60000 = 1440 * d"
  proof -
    have "(86400 * d + x) * 1000 = x * 1000 + (1440 * d) * 60000" by simp
    moreover have "x * 1000 div 60000 = 0" using assms by (simp add: div_pos_pos_trivial)
    ultimately show ?thesis by simp
  qed
  have "0 \<le> (86400 * d + x) * 1000" using assms by simp
  with h m show ?thesis by (simp add: dur_hours_def dur_minutes_def dur_sign_def)
qed

lemma format_template_day:
  assumes "0 < d" and "0 \<le> x" and "x < 60"
  shows "format_template ((86400 * d + x) * 1000) = ''s[s]''"
  using dur_components_day [OF assms] unfolding format_template_def Let_def by (simp only:) simp

text \<open>Without a current time the label shows the start time, negated, in seconds.\<close>

lemma uptime_no_current:
  assumes "0 < sec st"
  shows "uptime_effect True (Some st) None text = ''(-'' @ fmt_count (nat (sec st)) @ ''s)''"
proof -
  have "\<not> 0 < dur_hours (- (sec st * 1000))" and "\<not> 0 < dur_minutes (- (sec st * 1000))"
    using assms by (simp_all add: dur_hours_def dur_minutes_def dur_sign_def)
  then have "format_template (- (sec st * 1000)) = ''s[s]''" by (simp add: format_template_def)
  with assms show ?thesis
    by (simp add: uptime_effect_def format_duration_custom_def duration_format_def Let_def)
qed

subsection \<open>Properties of the uptime label\<close>

text \<open>
  C40: when the player has run a whole number of days and less than a minute more,
  the hour and minute components of the duration are zero, so the label falls back to
  the seconds-only template and shows the total seconds (one day and five seconds is
  \<open>(86,405s)\<close>), not hours and minutes.
\<close>

theorem uptime_whole_days:
  assumes "0 < d" and "0 \<le> x" and "x < 60" and "sec c = sec st + 86400 * d + x"
  shows "uptime_effect True (Some st) (Some c) text = ''('' @ fmt_count (nat (86400 * d + x)) @ ''s)''"
proof -
  have u: "sec c - sec st = 86400 * d + x" using assms(4) by simp
  have "\<bar>(86400 * d + x) * 1000\<bar> div 1000 = 86400 * d + x" using assms(1,2) by simp
  with format_template_day [OF assms(1-3)] assms(1,2) show ?thesis
    by (simp add: uptime_effect_def u format_duration_custom_def duration_format_def Let_def)
qed

theorem uptime_whole_days_witness:
  "uptime_effect True (Some \<lparr>sec = 0, nsec = 0\<rparr>) (Some \<lparr>sec = 86405, nsec = 0\<rparr>) [] =
     ''('' @ fmt_count 86405 @ ''s)''"
  using uptime_whole_days [of 1 5 "\<lparr>sec = 86405, nsec = 0\<rparr>" "\<lparr>sec = 0, nsec = 0\<rparr>" "[]"] by simp

end
