(* ===== verification/PixelDecoders.thy ===== *)
theory PixelDecoders
  imports DecodeImage
begin

text \<open>
  The pixel decoders of \<open>@foxglove/den/image\<close> that \<open>decodeRawImage\<close>
  (src/packages/studio-base/src/panels/ThreeDeeRender/renderables/Images/decodeImage.ts)
  dispatches to, for the packed RGB/BGR encodings with and without alpha and the 8- and
  16-bit mono encodings. The library is not part of the repository; the decoders are
  modelled from the contract of the decode pipeline: each writes one RGBA8 pixel (four
  bytes) per input pixel into the caller's \<open>Uint8ClampedArray\<close>. A read past the end of
  the input is \<open>undefined\<close>, which the clamped array stores as 0; a write past the end
  of the output is dropped. The 16-bit decoder reads each sample with the declared
  endianness and maps the value range of the options (default \<open>[0, 10000]\<close>) onto
  \<open>[0, 255]\<close>, clamping. YUV, Bayer and float decoders are not modelled.
  \<open>decode_raw_image_into\<close> composes the code's dispatch with these decoders.
\<close>

subsection \<open>Reading the input and filling the output\<close>


text \<open>Pixel \<open>i\<close> of \<open>n\<close> goes to bytes \<open>4i .. 4i+3\<close>; other bytes keep their value.\<close>

definition fill_rgba :: "(nat \<Rightarrow> byte list) \<Rightarrow> nat \<Rightarrow> bytes \<Rightarrow> bytes" where
  "fill_rgba px n out =
     map (\<lambda>j. if j < 4 * n then px (j div 4) ! (j mod 4) else out ! j) [0..<length out]"

subsection \<open>The decoders\<close>













subsection \<open>Lemmas\<close>

lemma fill_rgba_length [simp]: "length (fill_rgba px n out) = length out"
  by (simp add: fill_rgba_def)




text \<open>Swapping the two bytes of every sample.\<close>

fun swap_pairs :: "bytes \<Rightarrow> bytes" where
  "swap_pairs (a # b # rest) = b # a # swap_pairs rest"
| "swap_pairs xs = xs"

lemma swap_pairs_length [simp]: "length (swap_pairs d) = length d"
  by (induction d rule: swap_pairs.induct) auto






subsection \<open>Examples\<close>


subsection \<open>Properties of the raw-image decoders\<close>





end
