(* ===== verification/Spec2Isabelle.thy ===== *)
theory Spec2Isabelle
  imports Prelude Time SchemaResolver LogSource BlockCache H264 DecodeImage NodePlayground MapTileSets Uptime PixelDecoders
begin

text \<open>
  \<^bold>\<open>A verification library for the log source and decode pipeline of sviz.\<close>

  \<^bold>\<open>The program.\<close> The core of the repository reads ROS 2 \<open>.db3\<close> logs and turns
  them into message events, and decodes image and video payloads into bitmaps:
  \<^item> the log source \<open>RosDb3IterableSource\<close>
    (src/packages/studio-base/src/players/IterablePlayer/rosdb3/RosDb3IterableSource.ts)
    opens the segment files as one bag; \<open>initialize\<close> checks that the bag has
    messages, lists its topics with their message counts, and gives each topic whose
    type is a well-known ROS 2 type a schema: the breadth-first closure of the complex
    types the type refers to; \<open>messageIterator\<close> yields the messages of a topic set
    in a time window, end included; \<open>getBackfillMessages\<close> returns nothing;
  \<^item> the decode pipeline
    (src/packages/studio-base/src/panels/ThreeDeeRender/renderables/Images/decodeImage.ts)
    dispatches raw images on their encoding to a pixel decoder, decodes compressed
    images through the browser, and drives a stateful H.264 video decoder: keyframe
    detection, decoder configuration, frame timestamps relative to the first frame,
    and a blank placeholder until the decoder is configured;
  \<^item> the user-script panel (src/packages/studio-base/src/panels/NodePlayground/index.tsx)
    keeps a back stack of open scripts and saves scripts into the layout's user nodes.
  The log source calls the time arithmetic of \<open>@foxglove/rostime\<close>; its events reach
  the decode pipeline through the 3D renderer, which is outside this library.

  \<^bold>\<open>The theories.\<close>
  \<^item> \<open>Prelude\<close>: bytes as \<open>8 word list\<close>; a JavaScript \<open>Map\<close> as an association list
    in insertion order (\<open>js_get\<close>, \<open>js_set\<close>, \<open>js_keys\<close>: a later entry wins, an update
    keeps the key's position) with its lemmas, collected in \<open>sviz_simps\<close>.
  \<^item> \<open>Time\<close>: rostime's \<open>Time\<close> record, \<open>fixTime\<close> and \<open>add\<close> (a throw is \<open>None\<close>),
    \<open>toNanoSec\<close>; adding keeps the nanosecond count and normalises the result.
  \<^item> \<open>SchemaResolver\<close>: the worklist loop inside \<open>initialize\<close>: \<open>process_fields\<close> is
    the inner \<open>for\<close> over a definition's fields, \<open>resolve_loop\<close> the \<open>while\<close> over
    the queue, \<open>resolve\<close> its start from the topic's type. Its termination measure is
    twice the registry types not yet recorded plus the queue length. The abstract
    specification is the inductive \<open>reaches\<close> (reachability along complex fields);
    the loop invariant \<open>closure_inv\<close> connects the two. Claims C1--C3.
  \<^item> \<open>LogSource\<close>: the source's state record \<open>source\<close> (bag, start, end),
    \<open>initialize\<close> with its topic loop \<open>init_topic_loop\<close>, \<open>message_iterator\<close> as the
    list of everything the generator yields, \<open>get_backfill_messages\<close>. Claims C4--C7, C9--C12.
  \<^item> \<open>BlockCache\<close>: the blocks the player fills while reading (\<open>ingest\<close> appends),
    the contract's flattened view \<open>flatten\<close>, and the plot panel's hook
    \<open>useAllFramesByTopic\<close> as an incremental cache (\<open>use_all_frames_by_topic\<close>,
    \<open>add_block\<close>) that reuses its result when the new block list extends the last one;
    \<open>render_seq\<close> is a sequence of renders, as the hook's test drives it. The hook is
    not in the repository and is modelled from the contract; its test
    (src/packages/studio-base/src/panels/Plot/useAllFramesByTopic.test.tsx) is replayed.
    The test's worked example is \<open>flattens_blocks\<close>. Claims C34, C35, C37.
  \<^item> \<open>H264\<close>: the Annex B scan of \<open>@foxglove/den/video\<close>: start-code split
    (\<open>chunks\<close>, \<open>nal_units\<close>), unit type, IDR detection, the codec string of the first
    SPS, and the round trip \<open>nal_units (annexb units) = units\<close> for units free of
    start codes.
  \<^item> \<open>DecodeImage\<close>: \<open>decode_raw_image\<close> (the \<open>switch\<close> as a case table; the result
    is the decoder called with its arguments), \<open>decode_compressed_image_to_bitmap\<close>,
    \<open>is_video_keyframe\<close>, \<open>get_video_decoder_config\<close>, \<open>empty_video_frame\<close> and
    \<open>decode_compressed_video_to_bitmap\<close> over a \<open>video_player\<close> state that counts
    open frames, with the list of calls made. Claims C13, C15--C23.
  \<^item> \<open>NodePlayground\<close>: the panel's state, the values derived on render, every
    handler, the layout effect, and a render commit that re-runs the effect when its
    dependencies change reference; one event is \<open>np_step\<close>. The user nodes come
    from the layout store through \<open>user_node_selector\<close> (\<open>np_mount_layout\<close>).
    Claims C24--C30.
  \<^item> \<open>MapTileSets\<close>: the map-tile scene extension of the 3D panel
    (src/packages/studio-base/src/panels/ThreeDeeRender/renderables/MapTileSets.ts). Its
    state \<open>mts_state\<close> is the config's layers, the renderables, the scene's children and
    the calls made on the renderer. The constructor, \<open>settingsNodes\<close>,
    \<open>handleSettingsAction\<close>, \<open>handleAddMapTileSet\<close>, \<open>_updateMapTileSet\<close> and
    \<open>_createRenderable\<close> are one definition each. \<open>mts_step\<close> runs one handler, and the
    inductive \<open>mts_reachable\<close> holds the states reached from the constructor. The
    invariant \<open>mts_inv\<close> is proved per handler and then by rule induction.
    Claims C31, C38--C39.
  \<^item> \<open>Uptime\<close>: the app bar's uptime label
    (src/packages/studio-base/src/components/AppBar/Uptime.tsx): the pipeline
    selectors of start and current time, the effect (\<open>uptime\<close> runs it on the selected
    times) and \<open>formatDurationCustom\<close>, over moment's duration components and
    moment-duration-format. Claim C40.
  \<^item> \<open>PixelDecoders\<close>: the decoders of \<open>@foxglove/den/image\<close> for packed RGB/BGR with
    and without alpha and for 8- and 16-bit mono, modelled from the pipeline's contract
    (one RGBA8 pixel per input pixel written into the caller's clamped byte array, reads
    past the input's end are 0, writes past the output's end are dropped, 16-bit samples
    read with the declared endianness and scaled from the options' range).
    \<open>decode_raw_image_into\<close> runs the code's dispatch and then the decoder. Claims C8
    and C14.
  \<^item> this theory: properties across operations of the log source, C32--C33, and the
    data flow from the Log Source into the Block Cache: \<open>read_blocks\<close> calls
    \<open>message_iterator\<close> once per time window and seals each result as a block
    (\<open>block_of_events\<close>, indexed by topic in arrival order). The player's reading loop
    is not in the repository and is modelled from the contract. Claim C36.

  \<^bold>\<open>What the lemmas show.\<close> The resolver terminates, and returns exactly the reachable
  closure or throws for a reachable missing type. The iterator yields exactly the
  stored messages of the requested topics in the inclusive window, in time order, and
  fails only without a bag or for a negative end time. \<open>initialize\<close> fails exactly for
  an all-zero count table, lists the supported topics with their resolved schemas and
  warns for the others; after it succeeds, iterating with the defaults reads the whole
  bag. The raw-image dispatch accepts exactly eighteen encodings and passes options and
  endianness only where the code does; keyframe detection is exact on well-formed
  H.264; a returned bitmap never leaves a frame open. The incremental block-cache hook
  agrees with the flattened view over every sequence of renders, reads only new blocks
  after an ingest, and views for fewer topics are restrictions of views for more;
  blocks read over successive windows give every topic's flattened view in time order. The panel's
  override respects its depth limit and switching scripts keeps edits. The map-tile
  extension keeps its renderables, its scene children and the config in step in every
  reachable state, orders a new layer after all others, and gives every map-tile layer a
  renderable at the next settings tree build. Decoding a modelled raw encoding fills a
  well-formed RGBA8 buffer, opaque when the encoding has no alpha, and the 16-bit
  decoder's big-endian reading equals its little-endian reading of the byte-swapped
  data.

  \<^bold>\<open>Findings the lemmas make precise.\<close> Topics of unknown type are dropped from the
  topic list (C10); the schema closure never contains the topic's own type
  (\<open>resolve_omits_root\<close>); a failed \<open>initialize\<close> leaves a bag with stale bounds
  (C33); the 32FC1 decoder never sees the value range (C15); a frame is leaked when the
  bitmap conversion rejects (C21); frame timestamps keep sub-microsecond fractions
  (C22); renaming a script discards unsaved edits (C28); the bottom bar's save can
  overwrite a script with a utility file's code (C29); \<open>createMarker\<close> returns
  \<open>undefined\<close>, so no map-tile line list ever holds a marker (C38); the uptime label
  switches to a seconds-only display after whole days (C40) and shows a negative
  duration without a current time (\<open>uptime_no_current\<close>).

  \<^bold>\<open>Modelling choices.\<close> Libraries the code calls (rosbag2-web, rostime, den, the
  layout store, the browser's imaging API, the 3D renderer's scene extension and line
  list, moment and moment-duration-format) are modelled from their documented
  behaviour and marked so in the manifest. The map-tile extension compares positions
  and rotations exactly where the code allows a small tolerance. JavaScript numbers that hold integers are
  \<open>int\<close>/\<open>nat\<close>; the microsecond quotient of \<open>toMicroSec\<close> is a \<open>rat\<close> (floating
  point rounding is not modelled). Asynchronous code is modelled by its result: a
  generator by the list it yields, a promise by its value or its error. No loop needs
  fuel: the resolver's loop has a measure, the H.264 scan consumes a byte per call,
  and every other loop is structural.

  \<^bold>\<open>Not modelled.\<close> Loading the SQL engine and reading SQLite pages (I/O); the YUV,
  Bayer and float pixel decoders; the exp-Golomb fields of the SPS; the rendering itself (the
  three.js scene, line-list geometry, the DOM); the JSX markup and styles of the panels
  and of the uptime label, whose state, selectors, handlers and effects are modelled;
  the Monaco editor and diagnostics views of the script panel; UI-only files: \<open>studio-web/src/index.tsx\<close> (app
  bootstrap), stories (\<open>Workspace.stories.tsx\<close>, \<open>CustomBackgroundColor.stories.tsx\<close>)
  and i18n strings (\<open>i18n/en/preferences.ts\<close>). These have no behaviour a theorem
  could state: they configure or display. What remains of the modelled source files is
  imports, type declarations and markup, so no further part of the program can be
  modelled faithfully beyond the libraries above.
\<close>

subsection \<open>Block loading: Log Source into Block Cache\<close>


text \<open>The event of an iterator result.\<close>

fun event_msg :: "iterator_result \<Rightarrow> message_event" where
  "event_msg (MessageEventResult e) = e"

text \<open>Appending one event to its topic's list of a block under construction.\<close>

definition push_event :: "(string, message_event list) js_map \<Rightarrow> message_event \<Rightarrow> (string, message_event list) js_map" where
  "push_event m e =
     js_set m (me_topic e) ((case js_get m (me_topic e) of None \<Rightarrow> [] | Some l \<Rightarrow> l) @ [e])"

text \<open>A sealed block of the events of one read step, indexed by topic in arrival order;
  it awaits no topic.\<close>

definition block_of_events :: "iterator_result list \<Rightarrow> message_event block" where
  "block_of_events evs =
     \<lparr>blk_messages_by_topic = fold (\<lambda>ev m. push_event m (event_msg ev)) evs [],
      blk_need_topics = [],
      blk_size_in_bytes = sum_list (map (\<lambda>ev. me_size_in_bytes (event_msg ev)) evs)\<rparr>"

text \<open>The reading loop: one \<open>messageIterator\<close> call per window, one block per call;
  the first error stops the loop.\<close>

fun read_blocks :: "string list \<Rightarrow> (time \<times> time) list \<Rightarrow> source \<Rightarrow> source_error + message_event block list" where
  "read_blocks topics [] s = Inr []"
| "read_blocks topics ((a, b) # ws) s =
     (case message_iterator \<lparr>it_topics = topics, it_start = Some a, it_end = Some b\<rparr> s of
        Inl e \<Rightarrow> Inl e
      | Inr evs \<Rightarrow> (case read_blocks topics ws s of
                     Inl e \<Rightarrow> Inl e
                   | Inr bs \<Rightarrow> Inr (block_of_events evs # bs)))"

text \<open>Each window ends before every later one starts.\<close>

definition windows_ordered :: "(time \<times> time) list \<Rightarrow> bool" where
  "windows_ordered ws = sorted_wrt (\<lambda>w w'. to_nsec (snd w) < to_nsec (fst w')) ws"

text \<open>Two windows over the example bag: the first second, then seconds two to three.\<close>

definition ex_windows :: "(time \<times> time) list" where
  "ex_windows = [(\<lparr>sec = 1, nsec = 0\<rparr>, \<lparr>sec = 1, nsec = 0\<rparr>), (\<lparr>sec = 2, nsec = 0\<rparr>, \<lparr>sec = 3, nsec = 0\<rparr>)]"

lemma fold_push_event:
  "(case js_get (fold (\<lambda>ev m. push_event m (event_msg ev)) evs m) t of None \<Rightarrow> [] | Some l \<Rightarrow> l) =
     (case js_get m t of None \<Rightarrow> [] | Some l \<Rightarrow> l) @ filter (\<lambda>e. me_topic e = t) (map event_msg evs)"
  by (induction evs arbitrary: m) (auto simp: push_event_def split: option.splits)

lemma block_of_events_topic:
  "topic_messages (block_of_events evs) t = filter (\<lambda>e. me_topic e = t) (map event_msg evs)"
  using fold_push_event [of evs "[]" t] by (simp add: topic_messages_def block_of_events_def js_get_def)

lemma read_blocks_Inr:
  assumes "read_blocks topics ((a, b) # ws) s = Inr bs"
  obtains evs bs' where "message_iterator \<lparr>it_topics = topics, it_start = Some a, it_end = Some b\<rparr> s = Inr evs"
    and "read_blocks topics ws s = Inr bs'" and "bs = block_of_events evs # bs'"
  using assms by (auto split: sum.splits)

lemma event_window:
  assumes "message_iterator \<lparr>it_topics = topics, it_start = Some a, it_end = Some b\<rparr> s = Inr evs"
    and "ev \<in> set evs"
  shows "to_nsec a \<le> to_nsec (event_time ev) \<and> to_nsec (event_time ev) \<le> to_nsec b"
  using assms(1)
proof (cases rule: message_iterator_Inr)
  case 1 with assms(2) show ?thesis by simp
next
  case (2 b' e')
  with assms(2) show ?thesis by (auto simp: in_window_def eff_start_def eff_end_def)
qed

lemma iterator_events_sorted:
  assumes "message_iterator opt s = Inr evs"
  shows "sorted (map (\<lambda>ev. to_nsec (event_time ev)) evs)"
  using assms
proof (cases rule: message_iterator_Inr)
  case (2 b e')
  then show ?thesis by (simp add: comp_def)
qed simp

lemma event_time_msg: "to_nsec (event_time ev) = to_nsec (me_receive_time (event_msg ev))"
  by (cases ev) simp

abbreviation blocks_times :: "message_event block list \<Rightarrow> string \<Rightarrow> int list" where
  "blocks_times bs t \<equiv> map (\<lambda>e. to_nsec (me_receive_time e)) (concat (map (\<lambda>blk. topic_messages blk t) bs))"

lemma read_blocks_times:
  assumes "read_blocks topics ws s = Inr bs" and "x \<in> set (blocks_times bs t)"
  shows "\<exists>w \<in> set ws. to_nsec (fst w) \<le> x \<and> x \<le> to_nsec (snd w)"
  using assms
proof (induction topics ws s arbitrary: bs rule: read_blocks.induct)
  case (1 topics s)
  then show ?case by simp
next
  case (2 topics a b ws s)
  from "2.prems"(1) obtain evs bs' where it: "message_iterator \<lparr>it_topics = topics, it_start = Some a, it_end = Some b\<rparr> s = Inr evs"
    and r: "read_blocks topics ws s = Inr bs'" and bs: "bs = block_of_events evs # bs'"
    by (rule read_blocks_Inr)
  show ?case
  proof (cases "x \<in> set (blocks_times bs' t)")
    case True
    with "2.IH" [OF it r] show ?thesis by auto
  next
    case False
    with "2.prems"(2) bs obtain ev where "ev \<in> set evs" and "x = to_nsec (event_time ev)"
      by (auto simp: block_of_events_topic event_time_msg)
    with event_window [OF it] show ?thesis by fastforce
  qed
qed

lemma read_blocks_sorted:
  assumes "read_blocks topics ws s = Inr bs" and "windows_ordered ws"
  shows "sorted (blocks_times bs t)"
  using assms
proof (induction topics ws s arbitrary: bs rule: read_blocks.induct)
  case (1 topics s)
  then show ?case by simp
next
  case (2 topics a b ws s)
  from "2.prems"(1) obtain evs bs' where it: "message_iterator \<lparr>it_topics = topics, it_start = Some a, it_end = Some b\<rparr> s = Inr evs"
    and r: "read_blocks topics ws s = Inr bs'" and bs: "bs = block_of_events evs # bs'"
    by (rule read_blocks_Inr)
  have ord: "windows_ordered ws" and lt: "\<forall>w \<in> set ws. to_nsec b < to_nsec (fst w)"
    using "2.prems"(2) by (simp_all add: windows_ordered_def)
  have s1: "sorted (map (\<lambda>e. to_nsec (me_receive_time e)) (topic_messages (block_of_events evs) t))"
    using sorted_filter [OF iterator_events_sorted [OF it]]
    by (simp add: block_of_events_topic filter_map comp_def event_time_msg)
  have hi: "\<forall>x \<in> set (map (\<lambda>e. to_nsec (me_receive_time e)) (topic_messages (block_of_events evs) t)). x \<le> to_nsec b"
    using event_window [OF it] by (auto simp: block_of_events_topic event_time_msg)
  have lo: "\<forall>y \<in> set (blocks_times bs' t). to_nsec b < y"
    using read_blocks_times [OF r] lt by fastforce
  from "2.IH" [OF it r ord] s1 hi lo show ?case
    by (simp add: bs sorted_append) fastforce
qed

lemma read_blocks_topic:
  assumes "read_blocks topics ws s = Inr bs"
  shows "\<forall>e \<in> set (concat (map (\<lambda>blk. topic_messages blk t) bs)). me_topic e = t"
  using assms
proof (induction topics ws s arbitrary: bs rule: read_blocks.induct)
  case (2 topics a b ws s)
  from "2.prems" obtain evs bs' where it: "message_iterator \<lparr>it_topics = topics, it_start = Some a, it_end = Some b\<rparr> s = Inr evs"
    and r: "read_blocks topics ws s = Inr bs'" and bs: "bs = block_of_events evs # bs'"
    by (rule read_blocks_Inr)
  from "2.IH" [OF it r] show ?case by (auto simp: bs block_of_events_topic)
qed simp

lemma read_blocks_ex:
  "read_blocks [''/a''] ex_windows ex_opened =
     Inr [block_of_events [event_of ex_msg1], block_of_events [event_of ex_msg3]]"
  by (simp add: ex_windows_def message_iterator_def ex_bag_defs read_messages_def in_query_def to_nsec_def
      nsec_per_sec_def add_time_def fix_time_def one_nsec_def eff_start_def eff_end_def)

text \<open>
  C32: after a successful \<open>initialize\<close> of a bag whose end time is valid, iterating a
  non-empty topic set with the default window succeeds and yields exactly the stored
  messages of those topics between the bag's start and end, both included.
\<close>

theorem initialize_then_iterate:
  assumes "fst (initialize dts b s) = Inr i" and "0 \<le> sec (bag_end b)" and "0 \<le> nsec (bag_end b)"
    and "topics \<noteq> []"
  shows "\<exists>evs. message_iterator \<lparr>it_topics = topics, it_start = None, it_end = None\<rparr>
                  (snd (initialize dts b s)) = Inr evs \<and>
              mset evs = image_mset event_of (mset (filter (in_window topics (bag_start b) (bag_end b)) (bag_messages b)))"
proof -
  let ?opt = "\<lparr>it_topics = topics, it_start = None, it_end = None\<rparr>"
  let ?s = "snd (initialize dts b s)"
  have st: "?s = s\<lparr>src_bag := Some b, src_start := bag_start b, src_end := bag_end b\<rparr>"
    using initialize_Inr [OF assms(1)] by blast
  have se: "eff_start ?opt ?s = bag_start b" "eff_end ?opt ?s = bag_end b"
    by (simp_all add: st eff_start_def eff_end_def)
  have "\<exists>c. add_time (bag_end b) one_nsec = Some c"
    by (rule add_time_valid_Some [OF assms(2,3)]) (simp_all add: one_nsec_def)
  then obtain evs where it: "message_iterator ?opt ?s = Inr evs"
    using assms(4) by (auto simp: message_iterator_def st eff_end_def)
  from it have "mset evs = image_mset event_of (mset (filter (in_window topics (bag_start b) (bag_end b)) (bag_messages b)))"
  proof (cases rule: message_iterator_Inr)
    case 1
    with assms(4) show ?thesis by simp
  next
    case (2 b' e'')
    with se st show ?thesis by (simp add: mset_map)
  qed
  with it show ?thesis by blast
qed

theorem initialize_then_iterate_witness:
  "\<exists>evs. message_iterator \<lparr>it_topics = [''/a''], it_start = None, it_end = None\<rparr>
           (snd (initialize ex_registry ex_bag new_source)) = Inr evs \<and>
         mset evs = image_mset event_of (mset (filter (in_window [''/a''] (bag_start ex_bag) (bag_end ex_bag))
                                                  (bag_messages ex_bag)))"
  apply (rule initialize_then_iterate [of ex_registry ex_bag new_source ex_init])
     apply (simp add: initialize_ex)
    apply (simp_all add: ex_bag_def)
  done

text \<open>
  C33: \<open>initialize\<close> stores the bag before any check, so when it fails the source keeps
  the bag but not its bounds: a later \<open>messageIterator\<close> does not throw for a missing
  bag and reads the window of the old bounds (zero for a new source).
\<close>

theorem initialize_failure_state:
  assumes "fst (initialize dts b s) = Inl e"
  shows "src_bag (snd (initialize dts b s)) = Some b \<and>
         src_start (snd (initialize dts b s)) = src_start s \<and>
         src_end (snd (initialize dts b s)) = src_end s"
  using assms by (auto simp: initialize_def Let_def split: if_splits sum.splits prod.splits)

theorem initialize_failure_state_witness:
  "src_bag (snd (initialize ex_registry ex_empty_bag new_source)) = Some ex_empty_bag \<and>
   src_end (snd (initialize ex_registry ex_empty_bag new_source)) = time_zero"
  using initialize_failure_state [of ex_registry ex_empty_bag new_source NoMessages] initialize_ex_empty
  by (simp add: new_source_def)

text \<open>
  C36: reading a log source over windows that each end before the next starts, one block
  per window, the Block Cache's flattened view of any topic holds only that topic's
  messages, in non-decreasing receive time: the iterator's order within a window and
  the windows' order across blocks together survive the per-topic concatenation.
\<close>

theorem read_blocks_flatten_sorted:
  assumes "read_blocks topics ws s = Inr bs" and "windows_ordered ws" and "flatten topics bs t = Some ms"
  shows "sorted (map (\<lambda>e. to_nsec (me_receive_time e)) ms) \<and> (\<forall>e \<in> set ms. me_topic e = t)"
proof -
  have ms: "ms = concat (map (\<lambda>blk. topic_messages blk t) bs)"
    using assms(3) by (simp add: flatten_def split: if_splits)
  have "\<forall>e \<in> set ms. me_topic e = t"
    using read_blocks_topic [OF assms(1)] ms by blast
  with read_blocks_sorted [OF assms(1,2), of t] ms show ?thesis by simp
qed

theorem read_blocks_flatten_sorted_witness:
  "sorted (map (\<lambda>e. to_nsec (me_receive_time e)) [event_msg (event_of ex_msg1), event_msg (event_of ex_msg3)]) \<and>
   me_topic (event_msg (event_of ex_msg1)) = ''/a'' \<and> me_topic (event_msg (event_of ex_msg3)) = ''/a''"
proof -
  have w: "windows_ordered ex_windows"
    by (simp add: windows_ordered_def ex_windows_def to_nsec_def nsec_per_sec_def)
  have f: "flatten [''/a''] [block_of_events [event_of ex_msg1], block_of_events [event_of ex_msg3]] ''/a'' =
          Some [event_msg (event_of ex_msg1), event_msg (event_of ex_msg3)]"
    by (simp add: flatten_def in_some_block_def topic_messages_def block_of_events_def push_event_def
        js_has_def js_get_def js_set_def ex_bag_defs event_of_def)
  show ?thesis using read_blocks_flatten_sorted [OF read_blocks_ex w f] by simp
qed

end
